theory Spec2Isabelle
  imports Complex_Main
begin

section \<open>Data model (src/types/workout.ts)\<close>

text \<open>
  The client mirrors rows of the remote store as plain records. Columns that hold whole
  numbers (\<open>set_number\<close>, \<open>reps\<close>, \<open>order_index\<close>, target sets and rest seconds) are
  \<open>int\<close>. The decimal columns (\<open>weight_kg\<close>, \<open>rpe\<close>) are \<open>rat\<close>: the exact value of
  the finite double the client holds, since a JSON number is never \<open>NaN\<close> or infinite.
  Arithmetic on them is that of doubles, see the next section. A nullable column
  \<open>T | null\<close> is \<open>T option\<close>, and an optional property \<open>p?: T\<close> is \<open>T option\<close> with
  \<open>None\<close> for "absent". Field names carry a prefix naming their record, because several
  interfaces share \<open>id\<close>, \<open>exercise_id\<close>, \<open>notes\<close> and \<open>created_at\<close>.
\<close>

datatype MuscleGroup =
  chest | back_muscles | front_delt | side_delt | rear_delt | biceps | triceps | forearms
  | quadriceps | hamstrings | glutes | calves | core | traps | lats

datatype EquipmentType =
  barbell | dumbbell | cable | machine | bodyweight | kettlebell | resistance_band | other

datatype WorkoutStatus = in_progress | completed | abandoned

record Exercise =
  ex_id :: string
  ex_name :: string
  ex_description :: "string option"
  ex_primary_muscle_group :: MuscleGroup
  ex_secondary_muscle_groups :: "MuscleGroup list"
  ex_equipment :: EquipmentType
  ex_is_compound :: bool
  ex_created_by :: "string option"
  ex_created_at :: string

record TemplateExercise =
  te_id :: string
  te_template_id :: string
  te_exercise_id :: string
  te_order_index :: int
  te_target_sets :: int
  te_target_reps :: "int option"
  te_target_rpe :: "rat option"
  te_rest_seconds :: int
  te_notes :: "string option"
  te_created_at :: string
  te_exercise :: Exercise

record WorkoutTemplateWithExercises =
  t_id :: string
  t_name :: string
  t_description :: "string option"
  t_created_by :: "string option"
  t_estimated_duration_minutes :: "int option"
  t_created_at :: string
  t_updated_at :: string
  template_exercises :: "TemplateExercise list"

record Workout =
  w_id :: string
  w_user_id :: string
  w_template_id :: "string option"
  w_name :: string
  w_started_at :: string
  w_completed_at :: "string option"
  w_status :: WorkoutStatus
  w_notes :: "string option"
  w_created_at :: string
  w_updated_at :: string

record WorkoutSet =
  ws_id :: string
  ws_workout_exercise_id :: string
  set_number :: int
  weight_kg :: "rat option"
  reps :: "int option"
  rpe :: "rat option"
  is_warmup :: bool
  is_failure :: bool
  is_dropset :: bool
  ws_target_reps :: "int option"
  ws_completed_at :: string
  ws_created_at :: string

text \<open>
  A \<open>WorkoutExercise\<close> as it is held in the hook's state: the row, the joined
  \<open>exercise\<close> and \<open>sets\<close> (both optional in the interface), and the four target
  properties that \<open>startWorkout\<close> attaches and \<open>SetInputCard\<close> reads back
  (\<open>targetSets\<close>, \<open>targetReps\<close>, \<open>targetRpe\<close>, \<open>restSeconds\<close>). For \<open>targetReps\<close>
  and \<open>targetRpe\<close> the values \<open>null\<close> and \<open>undefined\<close> are both \<open>None\<close>; every
  reader in the source treats them alike (\<open>?.\<close> and \<open>??\<close>).
\<close>

record WorkoutExercise =
  we_id :: string
  we_workout_id :: string
  we_exercise_id :: string
  we_order_index :: int
  we_template_exercise_id :: "string option"
  is_substitution :: bool
  we_notes :: "string option"
  we_created_at :: string
  exercise :: "Exercise option"
  sets :: "WorkoutSet list option"
  targetSets :: "int option"
  targetReps :: "int option"
  targetRpe :: "rat option"
  restSeconds :: "int option"

text \<open>\<open>Omit<NewWorkoutSet, 'workout_exercise_id'>\<close>, the argument of \<open>logSet\<close>.\<close>

record NewSetData =
  ns_set_number :: int
  ns_weight_kg :: "rat option"
  ns_reps :: "int option"
  ns_rpe :: "rat option"
  ns_is_warmup :: "bool option"
  ns_is_failure :: "bool option"
  ns_is_dropset :: "bool option"
  ns_target_reps :: "int option"

text \<open>
  \<open>Partial<WorkoutSet>\<close>, the argument of \<open>updateSet\<close>: every property may be absent
  (outer \<open>None\<close>); a nullable column may also be set to \<open>null\<close> (\<open>Some None\<close>).
\<close>

record WorkoutSetPartial =
  p_id :: "string option"
  p_workout_exercise_id :: "string option"
  p_set_number :: "int option"
  p_weight_kg :: "rat option option"
  p_reps :: "int option option"
  p_rpe :: "rat option option"
  p_is_warmup :: "bool option"
  p_is_failure :: "bool option"
  p_is_dropset :: "bool option"
  p_target_reps :: "int option option"
  p_completed_at :: "string option"
  p_created_at :: "string option"

record PreviousSetData =
  ps_exercise_id :: string
  ps_weight_kg :: rat
  ps_reps :: int
  ps_set_number :: int

section \<open>JavaScript numbers\<close>

text \<open>
  A JavaScript number is an IEEE 754 binary64 value. The finite ones are rationals
  \<open>m * 2^e\<close> with \<open>\<bar>m\<bar> < 2^53\<close> and \<open>-1074 \<le> e \<le> 971\<close>; the two zeros are not told
  apart (no operation here can observe the sign of zero).
\<close>

datatype number = Finite rat | PosInfinity | NegInfinity | NaN

text \<open>The number of binary digits of a natural number.\<close>

fun bit_length :: "nat \<Rightarrow> nat" where
  "bit_length n = (if n = 0 then 0 else Suc (bit_length (n div 2)))"

declare bit_length.simps [simp del]

text \<open>The binade of a non-zero rational: the \<open>e\<close> with \<open>2^e \<le> \<bar>x\<bar> < 2^(e+1)\<close>.\<close>

definition binade :: "rat \<Rightarrow> int" where
  "binade x =
     (if 1 \<le> \<bar>x\<bar> then int (bit_length (nat \<lfloor>\<bar>x\<bar>\<rfloor>)) - 1
      else - int (bit_length (nat (\<lceil>1 / \<bar>x\<bar>\<rceil> - 1))))"

text \<open>The nearest integer, a tie going to the even one.\<close>

definition round_half_even :: "rat \<Rightarrow> int" where
  "round_half_even x =
     (let f = \<lfloor>x\<rfloor>; d = x - of_int f
      in if d < 1 / 2 then f else if 1 / 2 < d then f + 1 else if even f then f else f + 1)"

text \<open>
  The result of an arithmetic operation whose exact value is \<open>x\<close>: \<open>x\<close> rounded to the
  nearest double, ties to even. The spacing of doubles around \<open>x\<close> is \<open>2^q\<close> with \<open>q\<close> the
  binade less 52, and never finer than \<open>2^-1074\<close> (subnormal numbers); a result of
  magnitude \<open>2^1024\<close> or more is an infinity.
\<close>

definition to_double :: "rat \<Rightarrow> number" where
  "to_double x =
     (if x = 0 then Finite 0
      else (let q = max (binade x - 52) (- 1074);
                y = of_int (round_half_even (x / 2 powi q)) * 2 powi q
            in if 2 ^ 1024 \<le> \<bar>y\<bar> then (if 0 < x then PosInfinity else NegInfinity)
               else Finite y))"

text \<open>The operator \<open>+\<close> on numbers.\<close>

fun number_add :: "number \<Rightarrow> number \<Rightarrow> number" where
  "number_add NaN b = NaN"
| "number_add a NaN = NaN"
| "number_add PosInfinity NegInfinity = NaN"
| "number_add NegInfinity PosInfinity = NaN"
| "number_add PosInfinity b = PosInfinity"
| "number_add a PosInfinity = PosInfinity"
| "number_add NegInfinity b = NegInfinity"
| "number_add a NegInfinity = NegInfinity"
| "number_add (Finite x) (Finite y) = to_double (x + y)"

text \<open>
  \<open>Math.round\<close>: the integer nearest to the argument, a tie going up; an infinity or
  \<open>NaN\<close> is returned as it is. No rounding error arises here: from \<open>2^52\<close> on every
  double is an integer, and below every integer is a double.
\<close>

fun Math_round :: "number \<Rightarrow> number" where
  "Math_round (Finite x) = Finite (of_int \<lfloor>x + 1 / 2\<rfloor>)"
| "Math_round n = n"

text \<open>A number that is a double: an infinity, \<open>NaN\<close>, or a rational that rounding leaves alone.\<close>

fun is_double :: "number \<Rightarrow> bool" where
  "is_double (Finite x) = (to_double x = Finite x)"
| "is_double n = True"

text \<open>The multiples of \<open>2^-k\<close>: half kilograms for \<open>k = 1\<close>, quarters for \<open>k = 2\<close>.\<close>

definition on_grid :: "nat \<Rightarrow> rat \<Rightarrow> bool" where
  "on_grid k x = (of_int \<lfloor>x * 2 ^ k\<rfloor> = x * 2 ^ k)"

section \<open>The backend as seen from the client\<close>

text \<open>
  Every operation of the hook is one or two awaited calls on the backend SDK. The model
  passes the answer of each call in as an argument and records the calls that were made,
  so that "issues a request", "no retry" and "no delete is issued" are statements about
  the list of issued requests. A call either yields its data or makes the \<open>try\<close> block
  throw; the thrown value is an \<open>Error\<close> instance carrying a message, or something else
  (the SDK's error object need not be one).
\<close>

datatype thrown = ErrorInstance string | NotAnError

type_synonym 'a response = "thrown + 'a"

text \<open>The row that \<open>startWorkout\<close> inserts for each template exercise.\<close>

record NewWorkoutExercise =
  nwe_workout_id :: string
  nwe_exercise_id :: string
  nwe_order_index :: int
  nwe_template_exercise_id :: string
  nwe_is_substitution :: bool

text \<open>
  The two queries of \<open>getPreviousSets\<close>, with every argument of their builder chains.
  The first is
  \<^verbatim>\<open>from('workouts').select('id, workout_exercises!inner(id, exercise_id)')\<close>
  \<^verbatim>\<open>.eq('user_id', _).eq('status', _).eq('workout_exercises.exercise_id', _)\<close>
  \<^verbatim>\<open>.order('completed_at', { ascending: _ }).limit(_).single()\<close>
  and the second is
  \<^verbatim>\<open>from('workout_sets').select('set_number, weight_kg, reps')\<close>
  \<^verbatim>\<open>.eq('workout_exercise_id', _).eq('is_warmup', _).order('set_number', { ascending: _ })\<close>.
\<close>

datatype direction = Ascending | Descending

record WorkoutsQuery =
  wq_user_id :: string
  wq_status :: WorkoutStatus
  wq_exercise_id :: string
  wq_completed_at_order :: direction
  wq_limit :: nat

record SetsQuery =
  sq_workout_exercise_id :: string
  sq_is_warmup :: bool
  sq_set_number_order :: direction

datatype request =
  InsertWorkout string string string WorkoutStatus
    \<comment> \<open>\<open>user_id\<close>, \<open>template_id\<close>, \<open>name\<close>, \<open>status\<close>\<close>
  | InsertWorkoutExercises "NewWorkoutExercise list"
  | SelectWorkout string
  | SelectWorkoutExercises string
    \<comment> \<open>by \<open>workout_id\<close>, with exercise and sets joined, ordered by \<open>order_index\<close>\<close>
  | InsertSet string NewSetData
    \<comment> \<open>\<open>workout_exercise_id\<close> and the set data\<close>
  | UpdateSet string WorkoutSetPartial
  | DeleteSetRow string
  | UpdateWorkoutExercise string string bool
    \<comment> \<open>row id, new \<open>exercise_id\<close>, \<open>is_substitution\<close>\<close>
  | UpdateWorkout string WorkoutStatus string "string option option"
    \<comment> \<open>row id, \<open>status\<close>, \<open>completed_at\<close>, and \<open>notes\<close> when the update carries it\<close>
  | SelectWorkouts WorkoutsQuery
  | SelectSets SetsQuery

section \<open>The active-workout hook (src/hooks/useWorkout.ts)\<close>

record UseWorkoutState =
  workout :: "Workout option"
  exercises :: "WorkoutExercise list"
  loading :: bool
  st_error :: "string option"

text \<open>
  What an operation hands back to its caller: \<open>{ success, error }\<close> and, for some
  operations, one more property (\<open>set\<close>, \<open>workoutId\<close>, \<open>workout\<close>), here \<open>extra\<close>.
\<close>

record 'a op_result =
  success :: bool
  error :: "string option"
  extra :: "'a option"

text \<open>
  One call of an operation: the requests it issued, what it returned, and the state it
  leaves (the state it was given, with the operation's \<open>setState\<close> updates applied
  in order).
\<close>

record 'r outcome =
  issued :: "request list"
  returned :: 'r
  next_state :: UseWorkoutState

definition initial_state :: UseWorkoutState where
  "initial_state = \<lparr>workout = None, exercises = [], loading = False, st_error = None\<rparr>"

text \<open>\<open>error instanceof Error ? error.message : fallback\<close>\<close>

fun message_of :: "thrown \<Rightarrow> string \<Rightarrow> string" where
  "message_of (ErrorInstance m) fallback = m"
| "message_of NotAnError fallback = fallback"

definition failed :: "string \<Rightarrow> 'a op_result" where
  "failed m = \<lparr>success = False, error = Some m, extra = None\<rparr>"

definition succeeded :: "'a option \<Rightarrow> 'a op_result" where
  "succeeded x = \<lparr>success = True, error = None, extra = x\<rparr>"

text \<open>\<open>ex.sets ?? []\<close>\<close>

definition sets_or_empty :: "WorkoutExercise \<Rightarrow> WorkoutSet list" where
  "sets_or_empty ex = (case sets ex of None \<Rightarrow> [] | Some xs \<Rightarrow> xs)"

subsection \<open>logSet\<close>

definition logSet ::
  "UseWorkoutState \<Rightarrow> string \<Rightarrow> NewSetData \<Rightarrow> WorkoutSet response
     \<Rightarrow> WorkoutSet op_result outcome" where
  "logSet st workoutExerciseId setData resp =
     (case workout st of
        None \<Rightarrow> \<lparr>issued = [], returned = failed ''No active workout'', next_state = st\<rparr>
      | Some _ \<Rightarrow>
          (case resp of
             Inl e \<Rightarrow>
               \<lparr>issued = [InsertSet workoutExerciseId setData],
                returned = failed (message_of e ''Failed to log set''),
                next_state = st\<rparr>
           | Inr newSet \<Rightarrow>
               \<lparr>issued = [InsertSet workoutExerciseId setData],
                returned = succeeded (Some newSet),
                next_state = st\<lparr>exercises :=
                  map (\<lambda>ex. if we_id ex = workoutExerciseId
                             then ex\<lparr>sets := Some (sets_or_empty ex @ [newSet])\<rparr>
                             else ex)
                      (exercises st)\<rparr>\<rparr>))"

text \<open>A sequence of \<open>logSet\<close> calls, each with the backend's answer to it.\<close>

type_synonym logSet_call = "string \<times> NewSetData \<times> WorkoutSet response"

fun logSet_calls :: "UseWorkoutState \<Rightarrow> logSet_call list \<Rightarrow> UseWorkoutState" where
  "logSet_calls st [] = st"
| "logSet_calls st ((wid, d, r) # cs) = logSet_calls (next_state (logSet st wid d r)) cs"

text \<open>The sets created by the successful calls of a sequence that target one exercise.\<close>

fun inserted_for :: "string \<Rightarrow> logSet_call list \<Rightarrow> WorkoutSet list" where
  "inserted_for wid [] = []"
| "inserted_for wid ((w, d, Inr s) # cs) =
     (if w = wid then s # inserted_for wid cs else inserted_for wid cs)"
| "inserted_for wid ((w, d, Inl e) # cs) = inserted_for wid cs"

text \<open>
  What a run of \<open>logSet\<close> calls does to one slot: nothing when no set was created for
  it, otherwise its list (an absent one counting as empty) with the created sets behind.
\<close>

definition with_appended :: "WorkoutSet list \<Rightarrow> WorkoutExercise \<Rightarrow> WorkoutExercise" where
  "with_appended new ex = (if new = [] then ex else ex\<lparr>sets := Some (sets_or_empty ex @ new)\<rparr>)"

subsection \<open>startWorkout and resumeWorkout\<close>

text \<open>
  \<open>user\<close> is the authenticated user's id, \<open>None\<close> when nobody is signed in. The
  answer to the second insert is the list of created \<open>workout_exercises\<close> rows, each
  with its \<open>exercise\<close> joined.
\<close>

definition startWorkout ::
  "string option \<Rightarrow> UseWorkoutState \<Rightarrow> WorkoutTemplateWithExercises \<Rightarrow> Workout response
     \<Rightarrow> WorkoutExercise list response \<Rightarrow> string op_result outcome" where
  "startWorkout user st template r1 r2 =
     (case user of
        None \<Rightarrow> \<lparr>issued = [], returned = failed ''Not authenticated'', next_state = st\<rparr>
      | Some uid \<Rightarrow>
          (let st1 = st\<lparr>loading := True, st_error := None\<rparr>;
               q1 = InsertWorkout uid (t_id template) (t_name template) in_progress
           in case r1 of
                Inl e \<Rightarrow>
                  (let m = message_of e ''Failed to start workout''
                   in \<lparr>issued = [q1], returned = failed m,
                       next_state = st1\<lparr>loading := False, st_error := Some m\<rparr>\<rparr>)
              | Inr w \<Rightarrow>
                  (let workoutExercises =
                         map (\<lambda>te. \<lparr>nwe_workout_id = w_id w,
                                    nwe_exercise_id = te_exercise_id te,
                                    nwe_order_index = te_order_index te,
                                    nwe_template_exercise_id = te_id te,
                                    nwe_is_substitution = False\<rparr>)
                             (template_exercises template);
                       q2 = InsertWorkoutExercises workoutExercises
                   in case r2 of
                        Inl e \<Rightarrow>
                          (let m = message_of e ''Failed to start workout''
                           in \<lparr>issued = [q1, q2], returned = failed m,
                               next_state = st1\<lparr>loading := False, st_error := Some m\<rparr>\<rparr>)
                      | Inr exs \<Rightarrow>
                          (let exercisesWithTargets =
                                 map (\<lambda>ex.
                                        (let templateEx =
                                               find (\<lambda>te. te_exercise_id te = we_exercise_id ex)
                                                    (template_exercises template)
                                         in ex\<lparr>targetSets :=
                                                  Some (case templateEx of None \<Rightarrow> 3
                                                        | Some te \<Rightarrow> te_target_sets te),
                                                targetReps :=
                                                  (case templateEx of None \<Rightarrow> None
                                                   | Some te \<Rightarrow> te_target_reps te),
                                                targetRpe :=
                                                  (case templateEx of None \<Rightarrow> None
                                                   | Some te \<Rightarrow> te_target_rpe te),
                                                restSeconds :=
                                                  Some (case templateEx of None \<Rightarrow> 90
                                                        | Some te \<Rightarrow> te_rest_seconds te),
                                                sets := Some []\<rparr>))
                                     exs
                           in \<lparr>issued = [q1, q2],
                               returned = succeeded (Some (w_id w)),
                               next_state = \<lparr>workout = Some w,
                                             exercises = exercisesWithTargets,
                                             loading = False, st_error = None\<rparr>\<rparr>))))"

text \<open>The second answer may carry no rows at all: \<open>exercises ?? []\<close>.\<close>

definition resumeWorkout ::
  "UseWorkoutState \<Rightarrow> string \<Rightarrow> Workout response \<Rightarrow> WorkoutExercise list option response
     \<Rightarrow> unit op_result outcome" where
  "resumeWorkout st workoutId r1 r2 =
     (let st1 = st\<lparr>loading := True, st_error := None\<rparr>;
          q1 = SelectWorkout workoutId;
          q2 = SelectWorkoutExercises workoutId
      in case r1 of
           Inl e \<Rightarrow>
             (let m = message_of e ''Failed to resume workout''
              in \<lparr>issued = [q1], returned = failed m,
                  next_state = st1\<lparr>loading := False, st_error := Some m\<rparr>\<rparr>)
         | Inr w \<Rightarrow>
             (case r2 of
                Inl e \<Rightarrow>
                  (let m = message_of e ''Failed to resume workout''
                   in \<lparr>issued = [q1, q2], returned = failed m,
                       next_state = st1\<lparr>loading := False, st_error := Some m\<rparr>\<rparr>)
              | Inr exs \<Rightarrow>
                  \<lparr>issued = [q1, q2], returned = succeeded None,
                   next_state = \<lparr>workout = Some w,
                                 exercises = (case exs of None \<Rightarrow> [] | Some xs \<Rightarrow> xs),
                                 loading = False, st_error = None\<rparr>\<rparr>))"

subsection \<open>updateSet, deleteSet, swapExercise\<close>

text \<open>None of the three reads \<open>state.workout\<close>; \<open>ex.sets?.map\<close> keeps an absent list absent.\<close>

definition updateSet ::
  "UseWorkoutState \<Rightarrow> string \<Rightarrow> WorkoutSetPartial \<Rightarrow> WorkoutSet response
     \<Rightarrow> unit op_result outcome" where
  "updateSet st setId updates resp =
     (case resp of
        Inl e \<Rightarrow>
          \<lparr>issued = [UpdateSet setId updates],
           returned = failed (message_of e ''Failed to update set''),
           next_state = st\<rparr>
      | Inr updatedSet \<Rightarrow>
          \<lparr>issued = [UpdateSet setId updates],
           returned = succeeded None,
           next_state = st\<lparr>exercises :=
             map (\<lambda>ex. ex\<lparr>sets :=
                          map_option (map (\<lambda>s. if ws_id s = setId then updatedSet else s))
                                     (sets ex)\<rparr>)
                 (exercises st)\<rparr>\<rparr>)"

definition deleteSet ::
  "UseWorkoutState \<Rightarrow> string \<Rightarrow> string \<Rightarrow> unit response \<Rightarrow> unit op_result outcome" where
  "deleteSet st setId workoutExerciseId resp =
     (case resp of
        Inl e \<Rightarrow>
          \<lparr>issued = [DeleteSetRow setId],
           returned = failed (message_of e ''Failed to delete set''),
           next_state = st\<rparr>
      | Inr _ \<Rightarrow>
          \<lparr>issued = [DeleteSetRow setId],
           returned = succeeded None,
           next_state = st\<lparr>exercises :=
             map (\<lambda>ex. if we_id ex = workoutExerciseId
                        then ex\<lparr>sets := map_option (filter (\<lambda>s. ws_id s \<noteq> setId)) (sets ex)\<rparr>
                        else ex)
                 (exercises st)\<rparr>\<rparr>)"

text \<open>
  The answer \<open>data\<close> is the updated row with its \<open>exercise\<close> joined; the slot becomes
  \<open>{ ...data, sets: [] }\<close>, so whatever else the old slot object held is gone.
\<close>

definition swapExercise ::
  "UseWorkoutState \<Rightarrow> string \<Rightarrow> string \<Rightarrow> WorkoutExercise response
     \<Rightarrow> unit op_result outcome" where
  "swapExercise st workoutExerciseId newExerciseId resp =
     (case resp of
        Inl e \<Rightarrow>
          \<lparr>issued = [UpdateWorkoutExercise workoutExerciseId newExerciseId True],
           returned = failed (message_of e ''Failed to swap exercise''),
           next_state = st\<rparr>
      | Inr data \<Rightarrow>
          \<lparr>issued = [UpdateWorkoutExercise workoutExerciseId newExerciseId True],
           returned = succeeded None,
           next_state = st\<lparr>exercises :=
             map (\<lambda>ex. if we_id ex = workoutExerciseId then data\<lparr>sets := Some []\<rparr> else ex)
                 (exercises st)\<rparr>\<rparr>)"

subsection \<open>completeWorkout and abandonWorkout\<close>

text \<open>
  \<open>now\<close> is \<open>new Date().toISOString()\<close> at the time of the call. \<open>notes\<close> is the optional
  argument; \<open>notes || null\<close> turns both a missing argument and the empty string into \<open>null\<close>.
\<close>

definition notes_or_null :: "string option \<Rightarrow> string option" where
  "notes_or_null notes = (case notes of None \<Rightarrow> None | Some n \<Rightarrow> if n = [] then None else Some n)"

definition completeWorkout ::
  "UseWorkoutState \<Rightarrow> string \<Rightarrow> string option \<Rightarrow> Workout response
     \<Rightarrow> Workout op_result outcome" where
  "completeWorkout st now notes resp =
     (case workout st of
        None \<Rightarrow> \<lparr>issued = [], returned = failed ''No active workout'', next_state = st\<rparr>
      | Some w \<Rightarrow>
          (let q = UpdateWorkout (w_id w) completed now (Some (notes_or_null notes))
           in case resp of
                Inl e \<Rightarrow>
                  \<lparr>issued = [q],
                   returned = failed (message_of e ''Failed to complete workout''),
                   next_state = st\<rparr>
              | Inr data \<Rightarrow>
                  \<lparr>issued = [q],
                   returned = succeeded (Some data),
                   next_state = \<lparr>workout = None, exercises = [],
                                 loading = False, st_error = None\<rparr>\<rparr>))"

definition abandonWorkout ::
  "UseWorkoutState \<Rightarrow> string \<Rightarrow> unit response \<Rightarrow> unit op_result outcome" where
  "abandonWorkout st now resp =
     (case workout st of
        None \<Rightarrow> \<lparr>issued = [], returned = failed ''No active workout'', next_state = st\<rparr>
      | Some w \<Rightarrow>
          (let q = UpdateWorkout (w_id w) abandoned now None
           in case resp of
                Inl e \<Rightarrow>
                  \<lparr>issued = [q],
                   returned = failed (message_of e ''Failed to abandon workout''),
                   next_state = st\<rparr>
              | Inr _ \<Rightarrow>
                  \<lparr>issued = [q],
                   returned = succeeded None,
                   next_state = \<lparr>workout = None, exercises = [],
                                 loading = False, st_error = None\<rparr>\<rparr>))"

subsection \<open>getPreviousSets\<close>

text \<open>
  The answer to the first query is one workout's id with its matching
  \<open>workout_exercises\<close> rows embedded, or no row; the answer to the second is a list of
  rows of three columns.
\<close>

record RecentWorkoutExercise =
  rwe_id :: string
  rwe_exercise_id :: string

record RecentWorkout =
  rw_id :: string
  rw_workout_exercises :: "RecentWorkoutExercise list"

record SetRow =
  sr_set_number :: int
  sr_weight_kg :: "rat option"
  sr_reps :: "int option"

text \<open>
  JavaScript truthiness of a nullable number, as in \<open>s.weight_kg && s.reps\<close>: \<open>null\<close>
  and \<open>0\<close> are falsy.
\<close>

definition truthy :: "'a::zero option \<Rightarrow> bool" where
  "truthy x = (case x of None \<Rightarrow> False | Some v \<Rightarrow> v \<noteq> 0)"

text \<open>
  The second query depends on the answer to the first, so the backend is passed in as
  two functions from a query to its answer: whatever the store, the network and the SDK
  make of it. The \<open>.map\<close> after the \<open>.filter\<close> copies \<open>s.weight_kg\<close> and \<open>s.reps\<close>; the
  filter has already excluded \<open>null\<close>, so \<open>the\<close> is only ever applied to \<open>Some\<close>.
\<close>

definition getPreviousSets ::
  "string option \<Rightarrow> UseWorkoutState \<Rightarrow> string
     \<Rightarrow> (WorkoutsQuery \<Rightarrow> RecentWorkout option response)
     \<Rightarrow> (SetsQuery \<Rightarrow> SetRow list option response) \<Rightarrow> PreviousSetData list outcome" where
  "getPreviousSets user st exerciseId ask_workouts ask_sets =
     (case user of
        None \<Rightarrow> \<lparr>issued = [], returned = [], next_state = st\<rparr>
      | Some uid \<Rightarrow>
          (let q1 = \<lparr>wq_user_id = uid, wq_status = completed, wq_exercise_id = exerciseId,
                     wq_completed_at_order = Descending, wq_limit = 1\<rparr>
           in case ask_workouts q1 of
                Inl e \<Rightarrow> \<lparr>issued = [SelectWorkouts q1], returned = [], next_state = st\<rparr>
              | Inr None \<Rightarrow> \<lparr>issued = [SelectWorkouts q1], returned = [], next_state = st\<rparr>
              | Inr (Some recentWorkout) \<Rightarrow>
                  (case find (\<lambda>we. rwe_exercise_id we = exerciseId)
                             (rw_workout_exercises recentWorkout) of
                     None \<Rightarrow> \<lparr>issued = [SelectWorkouts q1], returned = [], next_state = st\<rparr>
                   | Some workoutExercise \<Rightarrow>
                       (let q2 = \<lparr>sq_workout_exercise_id = rwe_id workoutExercise,
                                  sq_is_warmup = False, sq_set_number_order = Ascending\<rparr>
                        in case ask_sets q2 of
                             Inl e \<Rightarrow>
                               \<lparr>issued = [SelectWorkouts q1, SelectSets q2], returned = [],
                                next_state = st\<rparr>
                           | Inr rows \<Rightarrow>
                               \<lparr>issued = [SelectWorkouts q1, SelectSets q2],
                                returned =
                                  map (\<lambda>s. \<lparr>ps_exercise_id = exerciseId,
                                             ps_weight_kg = the (sr_weight_kg s),
                                             ps_reps = the (sr_reps s),
                                             ps_set_number = sr_set_number s\<rparr>)
                                      (filter (\<lambda>s. truthy (sr_weight_kg s) \<and> truthy (sr_reps s))
                                              (case rows of None \<Rightarrow> [] | Some xs \<Rightarrow> xs)),
                                next_state = st\<rparr>))))"

subsection \<open>getWorkoutStats\<close>

record WorkoutStats =
  totalSets :: int
  totalVolume :: number
  exerciseCount :: int
  completedExercises :: int

text \<open>
  \<open>ex.sets?.filter(s => !s.is_warmup).length ?? 0\<close>. The three counts stay whole numbers
  far below \<open>2^53\<close>, where the arithmetic of doubles is exact.
\<close>

definition working_count :: "WorkoutExercise \<Rightarrow> int" where
  "working_count ex =
     (case sets ex of None \<Rightarrow> 0 | Some xs \<Rightarrow> int (length (filter (\<lambda>s. \<not> is_warmup s) xs)))"

text \<open>
  The volume is accumulated in doubles: each product \<open>s.weight_kg * s.reps\<close> is rounded,
  each \<open>+\<close> of the inner and of the outer \<open>reduce\<close> is rounded, and \<open>Math.round\<close> is
  applied to the outcome.
\<close>

definition getWorkoutStats :: "UseWorkoutState \<Rightarrow> WorkoutStats" where
  "getWorkoutStats st =
     (let totalSets = foldl (\<lambda>acc ex. acc + working_count ex) 0 (exercises st);
          totalVolume =
            foldl (\<lambda>acc ex.
                     number_add acc
                       (case sets ex of
                          None \<Rightarrow> Finite 0
                        | Some xs \<Rightarrow>
                            foldl (\<lambda>setAcc s.
                                     number_add setAcc
                                       (if \<not> is_warmup s \<and> truthy (weight_kg s) \<and> truthy (reps s)
                                        then to_double (the (weight_kg s) * of_int (the (reps s)))
                                        else Finite 0))
                                  (Finite 0) xs))
                  (Finite 0) (exercises st);
          exerciseCount = int (length (exercises st));
          completedExercises = int (length (filter (\<lambda>ex. working_count ex > 0) (exercises st)))
      in \<lparr>totalSets = totalSets,
          totalVolume = Math_round totalVolume,
          exerciseCount = exerciseCount,
          completedExercises = completedExercises\<rparr>)"

text \<open>
  The same two figures as the specification words them: a count and a sum over the
  non-warmup sets of all exercises, the sum taken over the sets whose weight and reps
  are both present, and rounded to the nearest integer.
\<close>

definition all_sets :: "WorkoutExercise list \<Rightarrow> WorkoutSet list" where
  "all_sets exs = concat (map sets_or_empty exs)"

definition set_volume :: "WorkoutSet \<Rightarrow> rat" where
  "set_volume s =
     (case weight_kg s of
        None \<Rightarrow> 0
      | Some w \<Rightarrow> (case reps s of None \<Rightarrow> 0 | Some r \<Rightarrow> w * of_int r))"

definition counts_for_volume :: "WorkoutSet \<Rightarrow> bool" where
  "counts_for_volume s = (\<not> is_warmup s \<and> weight_kg s \<noteq> None \<and> reps s \<noteq> None)"

definition spec_totalSets :: "WorkoutExercise list \<Rightarrow> int" where
  "spec_totalSets exs = int (length (filter (\<lambda>s. \<not> is_warmup s) (all_sets exs)))"

definition exact_volume :: "WorkoutExercise list \<Rightarrow> rat" where
  "exact_volume exs = sum_list (map set_volume (filter counts_for_volume (all_sets exs)))"

definition spec_totalVolume :: "WorkoutExercise list \<Rightarrow> int" where
  "spec_totalVolume exs = round (exact_volume exs)"

text \<open>
  The sum as doubles take it: the rounded product of each counted set, added up set by
  set within an exercise, the sums of the exercises added up in turn.
\<close>

definition exercise_volume :: "WorkoutExercise \<Rightarrow> number" where
  "exercise_volume ex =
     foldl number_add (Finite 0)
       (map (\<lambda>s. to_double (set_volume s)) (filter counts_for_volume (sets_or_empty ex)))"

definition double_volume :: "WorkoutExercise list \<Rightarrow> number" where
  "double_volume exs = foldl number_add (Finite 0) (map exercise_volume exs)"

text \<open>
  When doubles are exact: every counted weight is a multiple of \<open>2^-k\<close>, and the
  magnitudes of the counted products, summed and measured in units of \<open>2^-k\<close>, stay below
  \<open>2^53\<close>.
\<close>

definition weight_on_grid :: "nat \<Rightarrow> WorkoutSet \<Rightarrow> bool" where
  "weight_on_grid k s = (case weight_kg s of None \<Rightarrow> True | Some w \<Rightarrow> on_grid k w)"

definition volume_is_exact :: "nat \<Rightarrow> WorkoutExercise list \<Rightarrow> bool" where
  "volume_is_exact k exs =
     (k \<le> 1074
      \<and> list_all (weight_on_grid k) (filter counts_for_volume (all_sets exs))
      \<and> sum_list (map (\<lambda>s. \<bar>set_volume s\<bar>) (filter counts_for_volume (all_sets exs))) * 2 ^ k
          < 2 ^ 53)"

text \<open>The summand of the inner \<open>reduce\<close> of \<open>getWorkoutStats\<close>, named for the proofs.\<close>

definition counted_volume :: "WorkoutSet \<Rightarrow> number" where
  "counted_volume s =
     (if \<not> is_warmup s \<and> truthy (weight_kg s) \<and> truthy (reps s)
      then to_double (the (weight_kg s) * of_int (the (reps s))) else Finite 0)"

section \<open>The set input card (src/components/workout/SetInputCard.tsx)\<close>

record SetRowData =
  setNumber :: int
  row_weight :: string
  row_reps :: string
  isWarmup :: bool
  isCompleted :: bool
  setId :: "string option"
  previousWeight :: "rat option"
  previousReps :: "int option"

text \<open>
  The updater that \<open>handleDeleteSet\<close> passes to \<open>setSets\<close>:
  \<open>prev.filter((_, i) => i !== index)\<close>, then \<open>.map((s, i) => ({ ...s, setNumber: i + 1 }))\<close>.
\<close>

definition remove_and_renumber :: "nat \<Rightarrow> SetRowData list \<Rightarrow> SetRowData list" where
  "remove_and_renumber index prev =
     (let newSets = map snd (filter (\<lambda>(i, s). i \<noteq> index) (enumerate 0 prev))
      in map (\<lambda>(i, s). s\<lparr>setNumber := int i + 1\<rparr>) (enumerate 0 newSets))"

text \<open>
  \<open>handleDeleteSet(index)\<close> for the card of the exercise slot \<open>workoutExerciseId\<close>. Reading
  \<open>sets[index]\<close> beyond the list gives \<open>undefined\<close> and the next property access throws:
  that is \<open>None\<close>. The result of \<open>deleteSet\<close> is not inspected; the rows are renumbered
  whether or not the backend delete went through. \<open>returned\<close> is the card's new row list.
\<close>

definition handleDeleteSet ::
  "UseWorkoutState \<Rightarrow> string \<Rightarrow> SetRowData list \<Rightarrow> nat \<Rightarrow> unit response
     \<Rightarrow> SetRowData list outcome option" where
  "handleDeleteSet st workoutExerciseId rows index resp =
     (if index < length rows
      then (let row = rows ! index
            in case setId row of
                 Some sid \<Rightarrow>
                   (if isCompleted row \<and> sid \<noteq> []
                    then (let d = deleteSet st sid workoutExerciseId resp
                          in Some \<lparr>issued = issued d,
                                   returned = remove_and_renumber index rows,
                                   next_state = next_state d\<rparr>)
                    else Some \<lparr>issued = [], returned = remove_and_renumber index rows,
                               next_state = st\<rparr>)
               | None \<Rightarrow>
                   Some \<lparr>issued = [], returned = remove_and_renumber index rows,
                         next_state = st\<rparr>)
      else None)"

text \<open>
  \<open>addSet\<close> numbers the row it appends \<open>sets.length + 1\<close>, and \<open>handleSaveSet\<close> sends a
  row's \<open>setNumber\<close> as the \<open>set_number\<close> of the set it logs.
\<close>

definition nextSetNumber :: "SetRowData list \<Rightarrow> int" where
  "nextSetNumber rows = int (length rows) + 1"

section \<open>The rest timer (src/components/workout/RestTimer.tsx)\<close>

text \<open>
  The component state while the modal is mounted. \<open>visible\<close> is the parent's prop; the
  interval that produces ticks exists only while the timer is visible and not paused.
  A tick runs the updater of the countdown effect; reaching the end vibrates and calls
  \<open>onClose\<close>.
\<close>

record RestTimerState =
  visible :: bool
  remainingSeconds :: int
  isPaused :: bool

datatype signal = Vibrate | OnClose

datatype timer_event = Tick | TogglePause | AdjustTime int

definition open_timer :: "int \<Rightarrow> RestTimerState" where
  "open_timer duration = \<lparr>visible = True, remainingSeconds = duration, isPaused = False\<rparr>"

definition tick :: "RestTimerState \<Rightarrow> RestTimerState \<times> signal list" where
  "tick st =
     (if \<not> visible st \<or> isPaused st then (st, [])
      else if remainingSeconds st \<le> 1 then (st\<lparr>remainingSeconds := 0\<rparr>, [Vibrate, OnClose])
      else (st\<lparr>remainingSeconds := remainingSeconds st - 1\<rparr>, []))"

definition adjustTime :: "int \<Rightarrow> RestTimerState \<Rightarrow> RestTimerState" where
  "adjustTime delta st = st\<lparr>remainingSeconds := max 0 (remainingSeconds st + delta)\<rparr>"

definition togglePause :: "RestTimerState \<Rightarrow> RestTimerState" where
  "togglePause st = st\<lparr>isPaused := \<not> isPaused st\<rparr>"

fun timer_step :: "RestTimerState \<Rightarrow> timer_event \<Rightarrow> RestTimerState \<times> signal list" where
  "timer_step st Tick = tick st"
| "timer_step st TogglePause = (togglePause st, [])"
| "timer_step st (AdjustTime delta) = (adjustTime delta st, [])"

fun timer_run :: "RestTimerState \<Rightarrow> timer_event list \<Rightarrow> RestTimerState" where
  "timer_run st [] = st"
| "timer_run st (e # es) = timer_run (fst (timer_step st e)) es"

section \<open>The store and its answers to the two queries\<close>

text \<open>
  The tables the two queries read, with the columns they touch. \<open>completed_at\<close> is a
  point in time (the column is a timestamp; the client only ever sees its text), absent
  while a workout is in progress. The sets are the rows as the client receives them.
\<close>

record StoredWorkout =
  sw_id :: string
  sw_user_id :: string
  sw_status :: WorkoutStatus
  sw_completed_at :: "int option"

record StoredWorkoutExercise =
  swe_id :: string
  swe_workout_id :: string
  swe_exercise_id :: string

record Store =
  workouts_table :: "StoredWorkout list"
  workout_exercises_table :: "StoredWorkoutExercise list"
  workout_sets_table :: "WorkoutSet list"

text \<open>
  \<open>workout_exercises!inner(id, exercise_id)\<close> filtered on \<open>exercise_id\<close>: the embedded rows
  of one workout are those holding the exercise, and a workout without any is left out.
\<close>

definition embedded_exercises :: "Store \<Rightarrow> string \<Rightarrow> string \<Rightarrow> RecentWorkoutExercise list" where
  "embedded_exercises db workoutId exerciseId =
     map (\<lambda>e. \<lparr>rwe_id = swe_id e, rwe_exercise_id = swe_exercise_id e\<rparr>)
         (filter (\<lambda>e. swe_workout_id e = workoutId \<and> swe_exercise_id e = exerciseId)
                 (workout_exercises_table db))"

text \<open>
  Ordering by \<open>completed_at\<close>, rows that tie keeping their order. The store places a row
  without a value as if it were later than every other: first when descending, last when
  ascending.
\<close>

definition order_by_completed_at :: "direction \<Rightarrow> StoredWorkout list \<Rightarrow> StoredWorkout list" where
  "order_by_completed_at dir ws =
     (let dated = filter (\<lambda>w. sw_completed_at w \<noteq> None) ws;
          undated = filter (\<lambda>w. sw_completed_at w = None) ws
      in case dir of
           Descending \<Rightarrow> undated @ sort_key (\<lambda>w. - the (sw_completed_at w)) dated
         | Ascending \<Rightarrow> sort_key (\<lambda>w. the (sw_completed_at w)) dated @ undated)"

definition order_by_set_number :: "direction \<Rightarrow> WorkoutSet list \<Rightarrow> WorkoutSet list" where
  "order_by_set_number dir ss =
     (case dir of
        Ascending \<Rightarrow> sort_key set_number ss
      | Descending \<Rightarrow> sort_key (\<lambda>s. - set_number s) ss)"

text \<open>
  \<open>.single()\<close> answers with the row when exactly one is left after the limit, and with
  an error object otherwise.
\<close>

definition run_workouts_query :: "Store \<Rightarrow> WorkoutsQuery \<Rightarrow> RecentWorkout option response" where
  "run_workouts_query db q =
     (let matching =
            filter (\<lambda>w. sw_user_id w = wq_user_id q \<and> sw_status w = wq_status q
                        \<and> embedded_exercises db (sw_id w) (wq_exercise_id q) \<noteq> [])
                   (workouts_table db);
          rows = take (wq_limit q) (order_by_completed_at (wq_completed_at_order q) matching)
      in case rows of
           [w] \<Rightarrow> Inr (Some \<lparr>rw_id = sw_id w,
                              rw_workout_exercises =
                                embedded_exercises db (sw_id w) (wq_exercise_id q)\<rparr>)
         | _ \<Rightarrow> Inl NotAnError)"

definition run_sets_query :: "Store \<Rightarrow> SetsQuery \<Rightarrow> SetRow list option response" where
  "run_sets_query db q =
     Inr (Some (map (\<lambda>s. \<lparr>sr_set_number = set_number s, sr_weight_kg = weight_kg s,
                           sr_reps = reps s\<rparr>)
                    (order_by_set_number (sq_set_number_order q)
                       (filter (\<lambda>s. ws_workout_exercise_id s = sq_workout_exercise_id q
                                   \<and> is_warmup s = sq_is_warmup q)
                               (workout_sets_table db)))))"

section \<open>Vocabulary for the statements\<close>

text \<open>
  The user's completed workouts that contain an exercise; one workout being completed no
  earlier than another, in the store's order; the first slot of a workout that holds the
  exercise; a set with a weight and reps that are present and not zero.
\<close>

definition candidate_workouts :: "Store \<Rightarrow> string \<Rightarrow> string \<Rightarrow> StoredWorkout list" where
  "candidate_workouts db uid x =
     filter (\<lambda>w. sw_user_id w = uid \<and> sw_status w = completed
                 \<and> list_ex (\<lambda>e. swe_workout_id e = sw_id w \<and> swe_exercise_id e = x)
                            (workout_exercises_table db))
            (workouts_table db)"

definition not_earlier :: "StoredWorkout \<Rightarrow> StoredWorkout \<Rightarrow> bool" where
  "not_earlier w w' =
     (case sw_completed_at w of
        None \<Rightarrow> True
      | Some t \<Rightarrow> (case sw_completed_at w' of None \<Rightarrow> False | Some t' \<Rightarrow> t' \<le> t))"

definition first_slot :: "Store \<Rightarrow> StoredWorkout \<Rightarrow> string \<Rightarrow> StoredWorkoutExercise option" where
  "first_slot db w x =
     find (\<lambda>e. swe_workout_id e = sw_id w \<and> swe_exercise_id e = x) (workout_exercises_table db)"

definition usable :: "WorkoutSet \<Rightarrow> bool" where
  "usable s = (truthy (weight_kg s) \<and> truthy (reps s))"

text \<open>The first query of \<open>getPreviousSets\<close> for a user and an exercise.\<close>

definition recent_query :: "string \<Rightarrow> string \<Rightarrow> WorkoutsQuery" where
  "recent_query uid x =
     \<lparr>wq_user_id = uid, wq_status = completed, wq_exercise_id = x,
      wq_completed_at_order = Descending, wq_limit = 1\<rparr>"

definition working_sets_query :: "string \<Rightarrow> SetsQuery" where
  "working_sets_query slotId =
     \<lparr>sq_workout_exercise_id = slotId, sq_is_warmup = False, sq_set_number_order = Ascending\<rparr>"

text \<open>What is compared of a returned entry and of a stored set.\<close>

definition entry_of :: "PreviousSetData \<Rightarrow> string \<times> int \<times> rat option \<times> int option" where
  "entry_of p = (ps_exercise_id p, ps_set_number p, Some (ps_weight_kg p), Some (ps_reps p))"

definition entry_for :: "string \<Rightarrow> WorkoutSet \<Rightarrow> string \<times> int \<times> rat option \<times> int option" where
  "entry_for x s = (x, set_number s, weight_kg s, reps s)"


text \<open>The rows \<open>startWorkout\<close> sends in its second insert, for the created workout \<open>w\<close>.\<close>

definition inserted_rows :: "Workout \<Rightarrow> WorkoutTemplateWithExercises \<Rightarrow> NewWorkoutExercise list" where
  "inserted_rows w template =
     map (\<lambda>te. \<lparr>nwe_workout_id = w_id w,
                nwe_exercise_id = te_exercise_id te,
                nwe_order_index = te_order_index te,
                nwe_template_exercise_id = te_id te,
                nwe_is_substitution = False\<rparr>)
         (template_exercises template)"

text \<open>
  The function \<open>startWorkout\<close> maps over the created rows (\<open>exercisesWithTargets\<close>),
  named for the proofs.
\<close>

definition with_targets :: "WorkoutTemplateWithExercises \<Rightarrow> WorkoutExercise \<Rightarrow> WorkoutExercise" where
  "with_targets template ex =
     (let templateEx = find (\<lambda>te. te_exercise_id te = we_exercise_id ex)
                            (template_exercises template)
      in ex\<lparr>targetSets := Some (case templateEx of None \<Rightarrow> 3 | Some te \<Rightarrow> te_target_sets te),
            targetReps := (case templateEx of None \<Rightarrow> None | Some te \<Rightarrow> te_target_reps te),
            targetRpe := (case templateEx of None \<Rightarrow> None | Some te \<Rightarrow> te_target_rpe te),
            restSeconds := Some (case templateEx of None \<Rightarrow> 90 | Some te \<Rightarrow> te_rest_seconds te),
            sets := Some []\<rparr>)"

text \<open>
  The state after a signed-in user's \<open>startWorkout\<close> to which the store answered with
  the workout \<open>w\<close> and the rows \<open>rows\<close>, and the state after one more successful
  \<open>logSet\<close> on the first slot.
\<close>

definition started ::
  "string \<Rightarrow> UseWorkoutState \<Rightarrow> WorkoutTemplateWithExercises \<Rightarrow> Workout
     \<Rightarrow> WorkoutExercise list \<Rightarrow> UseWorkoutState" where
  "started uid st template w rows =
     next_state (startWorkout (Some uid) st template (Inr w) (Inr rows))"

definition logged_on_first :: "UseWorkoutState \<Rightarrow> NewSetData \<Rightarrow> WorkoutSet \<Rightarrow> UseWorkoutState" where
  "logged_on_first st d newSet =
     next_state (logSet st (we_id (exercises st ! 0)) d (Inr newSet))"

text \<open>
  A call on state \<open>st\<close> whose backend request threw \<open>e\<close>: it returned
  \<open>{ success: false, error: message }\<close> with the thrown error's message (or the
  operation's fallback text), it issued exactly the requests \<open>qs\<close>, and the workout and
  the exercise list it holds are those of \<open>st\<close>.
\<close>

definition reports_failure ::
  "UseWorkoutState \<Rightarrow> 'a op_result outcome \<Rightarrow> thrown \<Rightarrow> string \<Rightarrow> request list \<Rightarrow> bool" where
  "reports_failure st out e fallback qs =
     (success (returned out) = False
      \<and> error (returned out) = Some (message_of e fallback)
      \<and> extra (returned out) = None
      \<and> issued out = qs
      \<and> workout (next_state out) = workout st
      \<and> exercises (next_state out) = exercises st)"

section \<open>Answers a well-behaved backend gives\<close>

text \<open>
  The store is not part of the client. Where a property of the client depends on what the
  store sends back, the dependence is stated as a condition on the answer: an
  insert-and-select returns the inserted rows in order, each under a fresh id, and an
  update-and-select returns the row that was addressed, carrying the new values.
\<close>

definition insert_answer_ok :: "NewWorkoutExercise list \<Rightarrow> WorkoutExercise list \<Rightarrow> bool" where
  "insert_answer_ok inserted rows =
     (list_all2 (\<lambda>n r. we_workout_id r = nwe_workout_id n
                      \<and> we_exercise_id r = nwe_exercise_id n
                      \<and> we_order_index r = nwe_order_index n
                      \<and> we_template_exercise_id r = Some (nwe_template_exercise_id n)
                      \<and> is_substitution r = nwe_is_substitution n)
                inserted rows
      \<and> distinct (map we_id rows))"

definition swap_answer_ok :: "string \<Rightarrow> string \<Rightarrow> WorkoutExercise \<Rightarrow> bool" where
  "swap_answer_ok workoutExerciseId newExerciseId data =
     (we_id data = workoutExerciseId \<and> we_exercise_id data = newExerciseId \<and> is_substitution data)"

section \<open>Example data\<close>

definition mk_set :: "string \<Rightarrow> string \<Rightarrow> int \<Rightarrow> rat option \<Rightarrow> int option \<Rightarrow> bool \<Rightarrow> WorkoutSet" where
  "mk_set sid wid n w r warm =
     \<lparr>ws_id = sid, ws_workout_exercise_id = wid, set_number = n, weight_kg = w, reps = r,
      rpe = None, is_warmup = warm, is_failure = False, is_dropset = False,
      ws_target_reps = None, ws_completed_at = ''2024-05-01T10:00:00Z'',
      ws_created_at = ''2024-05-01T10:00:00Z''\<rparr>"

definition mk_slot :: "string \<Rightarrow> string \<Rightarrow> int \<Rightarrow> WorkoutSet list option \<Rightarrow> WorkoutExercise" where
  "mk_slot wid exid idx ss =
     \<lparr>we_id = wid, we_workout_id = ''w1'', we_exercise_id = exid, we_order_index = idx,
      we_template_exercise_id = None, is_substitution = False, we_notes = None,
      we_created_at = ''2024-05-01T09:00:00Z'', exercise = None, sets = ss,
      targetSets = None, targetReps = None, targetRpe = None, restSeconds = None\<rparr>"

definition example_workout :: Workout where
  "example_workout =
     \<lparr>w_id = ''w1'', w_user_id = ''u1'', w_template_id = Some ''t1'', w_name = ''Push day'',
      w_started_at = ''2024-05-01T09:00:00Z'', w_completed_at = None, w_status = in_progress,
      w_notes = None, w_created_at = ''2024-05-01T09:00:00Z'',
      w_updated_at = ''2024-05-01T09:00:00Z''\<rparr>"

text \<open>A session with two slots: three logged sets on the first, nothing yet on the second.\<close>

definition example_state :: UseWorkoutState where
  "example_state =
     \<lparr>workout = Some example_workout,
      exercises =
        [mk_slot ''we1'' ''bench'' 0
           (Some [mk_set ''a'' ''we1'' 1 (Some 60) (Some 8) False,
                  mk_set ''b'' ''we1'' 2 (Some 60) (Some 8) False,
                  mk_set ''c'' ''we1'' 3 (Some 60) (Some 6) False]),
         mk_slot ''we2'' ''squat'' 1 None],
      loading = False, st_error = None\<rparr>"

definition example_new_set :: NewSetData where
  "example_new_set =
     \<lparr>ns_set_number = 1, ns_weight_kg = Some 100, ns_reps = Some 5, ns_rpe = None,
      ns_is_warmup = Some False, ns_is_failure = None, ns_is_dropset = None,
      ns_target_reps = None\<rparr>"

definition example_updates :: WorkoutSetPartial where
  "example_updates =
     \<lparr>p_id = None, p_workout_exercise_id = None, p_set_number = None,
      p_weight_kg = Some (Some 65), p_reps = Some (Some 8), p_rpe = None, p_is_warmup = None,
      p_is_failure = None, p_is_dropset = None, p_target_reps = None, p_completed_at = None,
      p_created_at = None\<rparr>"

definition mk_exercise :: "string \<Rightarrow> string \<Rightarrow> Exercise" where
  "mk_exercise eid n =
     \<lparr>ex_id = eid, ex_name = n, ex_description = None, ex_primary_muscle_group = chest,
      ex_secondary_muscle_groups = [], ex_equipment = barbell, ex_is_compound = True,
      ex_created_by = None, ex_created_at = ''2024-01-01T00:00:00Z''\<rparr>"

definition mk_template_exercise :: "string \<Rightarrow> string \<Rightarrow> int \<Rightarrow> int \<Rightarrow> TemplateExercise" where
  "mk_template_exercise tid eid idx target =
     \<lparr>te_id = tid, te_template_id = ''t1'', te_exercise_id = eid, te_order_index = idx,
      te_target_sets = target, te_target_reps = Some 8, te_target_rpe = None,
      te_rest_seconds = 120, te_notes = None, te_created_at = ''2024-01-01T00:00:00Z'',
      te_exercise = mk_exercise eid eid\<rparr>"

definition example_template :: WorkoutTemplateWithExercises where
  "example_template =
     \<lparr>t_id = ''t1'', t_name = ''Push day'', t_description = None, t_created_by = None,
      t_estimated_duration_minutes = Some 60, t_created_at = ''2024-01-01T00:00:00Z'',
      t_updated_at = ''2024-01-01T00:00:00Z'',
      template_exercises =
        [mk_template_exercise ''te1'' ''bench'' 0 3,
         mk_template_exercise ''te2'' ''press'' 1 3,
         mk_template_exercise ''te3'' ''dips'' 2 3]\<rparr>"

text \<open>The rows the store sends back for the three inserts of \<open>example_template\<close>.\<close>

definition example_rows :: "WorkoutExercise list" where
  "example_rows =
     [(mk_slot ''we1'' ''bench'' 0 None)\<lparr>we_template_exercise_id := Some ''te1''\<rparr>,
      (mk_slot ''we2'' ''press'' 1 None)\<lparr>we_template_exercise_id := Some ''te2''\<rparr>,
      (mk_slot ''we3'' ''dips'' 2 None)\<lparr>we_template_exercise_id := Some ''te3''\<rparr>]"

definition mk_row :: "int \<Rightarrow> bool \<Rightarrow> string option \<Rightarrow> SetRowData" where
  "mk_row n done sid =
     \<lparr>setNumber = n, row_weight = ''60'', row_reps = ''8'', isWarmup = False,
      isCompleted = done, setId = sid, previousWeight = None, previousReps = None\<rparr>"

definition example_card_rows :: "SetRowData list" where
  "example_card_rows =
     [mk_row 1 True (Some ''a''), mk_row 2 True (Some ''b''), mk_row 3 True (Some ''c'')]"

text \<open>
  A state for the statistics: a warmup set, a working set of 62.5 kg for 5, a working set
  without a weight, a bodyweight set entered with weight 0, and a slot without a list.
\<close>

definition stats_state :: UseWorkoutState where
  "stats_state =
     \<lparr>workout = Some example_workout,
      exercises =
        [mk_slot ''we1'' ''bench'' 0
           (Some [mk_set ''a'' ''we1'' 1 (Some 20) (Some 10) True,
                  mk_set ''b'' ''we1'' 2 (Some (125 / 2)) (Some 5) False,
                  mk_set ''c'' ''we1'' 3 None (Some 5) False]),
         mk_slot ''we2'' ''pullup'' 1 (Some [mk_set ''d'' ''we2'' 1 (Some 0) (Some 10) False]),
         mk_slot ''we3'' ''squat'' 2 None],
      loading = False, st_error = None\<rparr>"

text \<open>
  The card rows and the session after the first set of \<open>example_state\<close> was deleted.
\<close>

definition example_rows_after_delete :: "SetRowData list" where
  "example_rows_after_delete = [mk_row 1 True (Some ''b''), mk_row 2 True (Some ''c'')]"

definition example_state_after_delete :: UseWorkoutState where
  "example_state_after_delete =
     \<lparr>workout = Some example_workout,
      exercises =
        [mk_slot ''we1'' ''bench'' 0
           (Some [mk_set ''b'' ''we1'' 2 (Some 60) (Some 8) False,
                  mk_set ''c'' ''we1'' 3 (Some 60) (Some 6) False]),
         mk_slot ''we2'' ''squat'' 1 None],
      loading = False, st_error = None\<rparr>"

text \<open>
  One working set of five reps at 0.7 kg. The weight held in memory is the double nearest
  to 0.7, which is \<open>3152519739159347 / 2^52\<close>.
\<close>

definition rounding_state :: UseWorkoutState where
  "rounding_state =
     \<lparr>workout = Some example_workout,
      exercises =
        [mk_slot ''we1'' ''curl'' 0
           (Some [mk_set ''a'' ''we1'' 1 (Some (3152519739159347 / 2 ^ 52)) (Some 5) False])],
      loading = False, st_error = None\<rparr>"

text \<open>
  A store for the look-up of pull-ups by user \<open>u1\<close>. Of the user's two completed
  workouts the later one, \<open>w2\<close>, holds pull-ups in two slots, \<open>we9\<close> and then \<open>we10\<close>.
  The first slot has a warmup set and three working sets, stored out of order: one
  without a weight (the column is nullable), one at bodyweight stored with weight 0, one
  with 20 kg. Another user's workout and a workout in progress are later still.
\<close>

definition example_store :: Store where
  "example_store =
     \<lparr>workouts_table =
        [\<lparr>sw_id = ''w1'', sw_user_id = ''u1'', sw_status = completed, sw_completed_at = Some 100\<rparr>,
         \<lparr>sw_id = ''w2'', sw_user_id = ''u1'', sw_status = completed, sw_completed_at = Some 200\<rparr>,
         \<lparr>sw_id = ''w3'', sw_user_id = ''u2'', sw_status = completed, sw_completed_at = Some 300\<rparr>,
         \<lparr>sw_id = ''w4'', sw_user_id = ''u1'', sw_status = in_progress, sw_completed_at = None\<rparr>],
      workout_exercises_table =
        [\<lparr>swe_id = ''we1'', swe_workout_id = ''w1'', swe_exercise_id = ''pullup''\<rparr>,
         \<lparr>swe_id = ''we8'', swe_workout_id = ''w2'', swe_exercise_id = ''squat''\<rparr>,
         \<lparr>swe_id = ''we9'', swe_workout_id = ''w2'', swe_exercise_id = ''pullup''\<rparr>,
         \<lparr>swe_id = ''we10'', swe_workout_id = ''w2'', swe_exercise_id = ''pullup''\<rparr>,
         \<lparr>swe_id = ''we11'', swe_workout_id = ''w3'', swe_exercise_id = ''pullup''\<rparr>,
         \<lparr>swe_id = ''we12'', swe_workout_id = ''w4'', swe_exercise_id = ''pullup''\<rparr>],
      workout_sets_table =
        [mk_set ''o1'' ''we1'' 1 (Some 15) (Some 8) False,
         mk_set ''s0'' ''we9'' 1 (Some 10) (Some 10) True,
         mk_set ''s3'' ''we9'' 3 (Some 20) (Some 8) False,
         mk_set ''s1'' ''we9'' 1 None (Some 10) False,
         mk_set ''s2'' ''we9'' 2 (Some 0) (Some 10) False,
         mk_set ''t1'' ''we10'' 1 (Some 25) (Some 6) False,
         mk_set ''x1'' ''we11'' 1 (Some 30) (Some 5) False]\<rparr>"

section \<open>Properties of logSet\<close>

lemma sets_or_empty_update [simp]: "sets_or_empty (ex\<lparr>sets := Some ys\<rparr>) = ys"
  by (simp add: sets_or_empty_def)

lemma logSet_workout_unchanged [simp]: "workout (next_state (logSet st wid d r)) = workout st"
  by (simp add: logSet_def split: option.splits sum.splits)

lemma logSet_calls_workout [simp]: "workout (logSet_calls st cs) = workout st"
  by (induction st cs rule: logSet_calls.induct) simp_all

lemma logSet_failed_state: "next_state (logSet st wid d (Inl e)) = st"
  by (simp add: logSet_def split: option.splits)

lemma logSet_inactive:
  "workout st = None \<Longrightarrow>
     logSet st wid d r = \<lparr>issued = [], returned = failed ''No active workout'', next_state = st\<rparr>"
  by (simp add: logSet_def)

lemma logSet_calls_inactive: "workout st = None \<Longrightarrow> logSet_calls st cs = st"
  by (induction st cs rule: logSet_calls.induct) (simp_all add: logSet_inactive)

lemma logSet_active_issued:
  "workout st \<noteq> None \<Longrightarrow> issued (logSet st wid d r) = [InsertSet wid d]"
  by (auto simp add: logSet_def split: option.splits sum.splits)

lemma logSet_success_exercises:
  "workout st \<noteq> None \<Longrightarrow>
     exercises (next_state (logSet st wid d (Inr s))) =
       map (\<lambda>ex. with_appended (if we_id ex = wid then [s] else []) ex) (exercises st)"
  by (auto simp add: logSet_def with_appended_def split: option.splits)

lemma with_appended_id [simp]: "we_id (with_appended new ex) = we_id ex"
  by (simp add: with_appended_def)

lemma with_appended_twice:
  "with_appended ys (with_appended xs ex) = with_appended (xs @ ys) ex"
  by (simp add: with_appended_def)

lemma sets_or_empty_with_appended [simp]:
  "sets_or_empty (with_appended new ex) = sets_or_empty ex @ new"
  by (simp add: with_appended_def)

lemma logSet_calls_exercises:
  "workout st \<noteq> None \<Longrightarrow>
     exercises (logSet_calls st cs) =
       map (\<lambda>ex. with_appended (inserted_for (we_id ex) cs) ex) (exercises st)"
proof (induction st cs rule: logSet_calls.induct)
  case (1 st)
  then show ?case by (simp add: with_appended_def)
next
  case (2 st wid d r cs)
  show ?case
  proof (cases r)
    case (Inl e)
    with 2 show ?thesis by (simp add: logSet_failed_state)
  next
    case (Inr s)
    with 2 show ?thesis
      by (simp add: logSet_success_exercises with_appended_twice o_def)
  qed
qed

lemma logSet_calls_slot:
  assumes "workout st \<noteq> None" and "i < length (exercises st)"
    and "we_id (exercises st ! i) = wid"
  shows "exercises (logSet_calls st cs) ! i = with_appended (inserted_for wid cs) (exercises st ! i)"
  using assms by (simp add: logSet_calls_exercises)

text \<open>
  Claim C1. With no workout active, \<open>logSet\<close> issues nothing, returns the failure
  \<open>No active workout\<close> and leaves the state as it was. A failed call leaves the state as
  it was. In an active session every call issues exactly one insert, and after any
  sequence of calls the slot with id \<open>wid\<close> holds its former sets followed by the sets
  created by the successful calls on \<open>wid\<close>, in call order: the list has grown by one
  entry per successful insert. Nothing is de-duplicated: the same call made twice, both
  succeeding, appends two entries.
\<close>

theorem logSet_grows_local_list:
  "(workout st = None \<longrightarrow>
      logSet st wid d r =
        \<lparr>issued = [], returned = failed ''No active workout'', next_state = st\<rparr>
      \<and> logSet_calls st cs = st)
   \<and> next_state (logSet st wid d (Inl e)) = st
   \<and> (workout st \<noteq> None \<longrightarrow>
        issued (logSet st wid d r) = [InsertSet wid d]
        \<and> workout (logSet_calls st cs) = workout st
        \<and> length (exercises (logSet_calls st cs)) = length (exercises st)
        \<and> (i < length (exercises st) \<and> we_id (exercises st ! i) = wid \<longrightarrow>
             we_id (exercises (logSet_calls st cs) ! i) = wid
             \<and> sets_or_empty (exercises (logSet_calls st cs) ! i) =
                 sets_or_empty (exercises st ! i) @ inserted_for wid cs
             \<and> length (sets_or_empty (exercises (logSet_calls st cs) ! i)) =
                 length (sets_or_empty (exercises st ! i)) + length (inserted_for wid cs)
             \<and> sets_or_empty (exercises (logSet_calls st [(wid, d, Inr s), (wid, d, Inr s)]) ! i) =
                 sets_or_empty (exercises st ! i) @ [s, s]))"
proof -
  have inactive: "workout st = None \<longrightarrow>
      logSet st wid d r =
        \<lparr>issued = [], returned = failed ''No active workout'', next_state = st\<rparr>
      \<and> logSet_calls st cs = st"
    by (simp add: logSet_inactive logSet_calls_inactive)
  have failure: "next_state (logSet st wid d (Inl e)) = st"
    by (rule logSet_failed_state)
  have active: "issued (logSet st wid d r) = [InsertSet wid d]
        \<and> workout (logSet_calls st cs) = workout st
        \<and> length (exercises (logSet_calls st cs)) = length (exercises st)"
    if "workout st \<noteq> None"
    using that by (simp add: logSet_active_issued logSet_calls_exercises)
  have slot: "we_id (exercises (logSet_calls st cs) ! i) = wid
             \<and> sets_or_empty (exercises (logSet_calls st cs) ! i) =
                 sets_or_empty (exercises st ! i) @ inserted_for wid cs
             \<and> length (sets_or_empty (exercises (logSet_calls st cs) ! i)) =
                 length (sets_or_empty (exercises st ! i)) + length (inserted_for wid cs)
             \<and> sets_or_empty (exercises (logSet_calls st [(wid, d, Inr s), (wid, d, Inr s)]) ! i) =
                 sets_or_empty (exercises st ! i) @ [s, s]"
    if "workout st \<noteq> None" and "i < length (exercises st)" and "we_id (exercises st ! i) = wid"
    using that by (simp add: logSet_calls_slot del: logSet_calls.simps)
  from inactive failure active slot show ?thesis by blast
qed

theorem logSet_grows_local_list_witness:
  "workout example_state \<noteq> None
   \<and> 0 < length (exercises example_state)
   \<and> we_id (exercises example_state ! 0) = ''we1''
   \<and> length (inserted_for ''we1''
        [(''we1'', example_new_set, Inr (mk_set ''d'' ''we1'' 4 (Some 100) (Some 5) False)),
         (''we1'', example_new_set, Inl NotAnError),
         (''we2'', example_new_set, Inr (mk_set ''e'' ''we2'' 1 (Some 100) (Some 5) False)),
         (''we1'', example_new_set, Inr (mk_set ''d'' ''we1'' 4 (Some 100) (Some 5) False))]) = 2
   \<and> length (sets_or_empty (exercises (logSet_calls example_state
        [(''we1'', example_new_set, Inr (mk_set ''d'' ''we1'' 4 (Some 100) (Some 5) False)),
         (''we1'', example_new_set, Inl NotAnError),
         (''we2'', example_new_set, Inr (mk_set ''e'' ''we2'' 1 (Some 100) (Some 5) False)),
         (''we1'', example_new_set, Inr (mk_set ''d'' ''we1'' 4 (Some 100) (Some 5) False))]) ! 0)) = 5"
  using logSet_grows_local_list [where st = example_state and wid = "''we1''" and i = 0
      and cs = "[(''we1'', example_new_set, Inr (mk_set ''d'' ''we1'' 4 (Some 100) (Some 5) False)),
         (''we1'', example_new_set, Inl NotAnError),
         (''we2'', example_new_set, Inr (mk_set ''e'' ''we2'' 1 (Some 100) (Some 5) False)),
         (''we1'', example_new_set, Inr (mk_set ''d'' ''we1'' 4 (Some 100) (Some 5) False))]"]
  by (simp add: example_state_def mk_slot_def sets_or_empty_def)

section \<open>Properties of the arithmetic of doubles\<close>

text \<open>
  The rounding function is what it is meant to be: \<open>binade\<close> is the binary exponent, the
  result of rounding is itself a double, and a value on a coarse enough grid is exact.
\<close>

lemma bit_length_bounds:
  "0 < n \<Longrightarrow> 2 ^ (bit_length n - 1) \<le> n \<and> n < 2 ^ bit_length n"
proof (induction n rule: bit_length.induct)
  case (1 n)
  show ?case
  proof (cases "n div 2 = 0")
    case True
    with 1(2) have "n = 1" by (simp add: div_eq_0_iff) 
    then show ?thesis by (simp add: bit_length.simps)
  next
    case False
    with 1 have ih: "2 ^ (bit_length (n div 2) - 1) \<le> n div 2" "n div 2 < 2 ^ bit_length (n div 2)"
      by simp_all
    from False have pos: "0 < bit_length (n div 2)"
      by (simp add: bit_length.simps [of "n div 2"])
    have bl: "bit_length n = Suc (bit_length (n div 2))"
      using 1(2) by (simp add: bit_length.simps [of n])
    from pos have "(2::nat) ^ bit_length (n div 2) = 2 * 2 ^ (bit_length (n div 2) - 1)"
      by (cases "bit_length (n div 2)") simp_all
    with ih have "2 ^ bit_length (n div 2) \<le> n" "n < 2 * 2 ^ bit_length (n div 2)"
      by linarith+
    with bl show ?thesis by simp
  qed
qed

lemma bit_length_pos: "0 < n \<Longrightarrow> 0 < bit_length n"
  by (simp add: bit_length.simps [of n])

lemma binade_bounds:
  assumes "x \<noteq> 0"
  shows "2 powi binade x \<le> \<bar>x\<bar>" and "\<bar>x\<bar> < 2 powi (binade x + 1)"
proof -
  have "2 powi binade x \<le> \<bar>x\<bar> \<and> \<bar>x\<bar> < 2 powi (binade x + 1)"
  proof (cases "1 \<le> \<bar>x\<bar>")
    case True
    define n where "n = nat \<lfloor>\<bar>x\<bar>\<rfloor>"
    from True have n: "0 < n" "of_nat n \<le> \<bar>x\<bar>" "\<bar>x\<bar> < of_nat n + 1"
      unfolding n_def by (simp_all add: le_floor_iff) linarith+
    define b where "b = bit_length n"
    from bit_length_bounds [OF n(1)] bit_length_pos [OF n(1)]
    have b: "2 ^ (b - 1) \<le> n" "n < 2 ^ b" "0 < b" by (simp_all add: b_def)
    have be: "binade x = int b - 1"
      using True by (simp add: binade_def n_def b_def)
    have "(2::rat) powi (int b - 1) = 2 ^ (b - 1)"
      using b(3) by (simp add: power_int_def nat_diff_distrib')
    also have "\<dots> \<le> of_nat n"
    proof -
      from b(1) have "(of_nat (2 ^ (b - 1)) :: rat) \<le> of_nat n" by (simp only: of_nat_le_iff)
      then show ?thesis by simp
    qed
    finally have lo: "2 powi binade x \<le> \<bar>x\<bar>"
      using n(2) be by simp
    from b(2) have "n + 1 \<le> 2 ^ b" by simp
    then have "(of_nat (n + 1) :: rat) \<le> of_nat (2 ^ b)" by (simp only: of_nat_le_iff)
    then have "(of_nat n :: rat) + 1 \<le> 2 ^ b" by simp
    with n(3) have "\<bar>x\<bar> < 2 ^ b" by simp
    then have hi: "\<bar>x\<bar> < 2 powi (binade x + 1)"
      by (simp add: be)
    from lo hi show ?thesis ..
  next
    case False
    define y where "y = 1 / \<bar>x\<bar>"
    from False assms have y: "1 < y" "0 < \<bar>x\<bar>" "\<bar>x\<bar> = 1 / y"
      by (simp_all add: y_def)
    define n where "n = nat (\<lceil>y\<rceil> - 1)"
    have "2 \<le> \<lceil>y\<rceil>" using y(1) by (simp add: le_ceiling_iff)
    then have n: "0 < n" "of_nat n < y" "y \<le> of_nat n + 1"
      unfolding n_def by simp_all linarith+
    define b where "b = bit_length n"
    from bit_length_bounds [OF n(1)] bit_length_pos [OF n(1)]
    have b: "2 ^ (b - 1) \<le> n" "n < 2 ^ b" "0 < b" by (simp_all add: b_def)
    have be: "binade x = - int b"
      using False by (simp add: binade_def n_def b_def y_def)
    from b(2) have "n + 1 \<le> 2 ^ b" by simp
    then have "(of_nat (n + 1) :: rat) \<le> of_nat (2 ^ b)" by (simp only: of_nat_le_iff)
    then have "(of_nat n :: rat) + 1 \<le> 2 ^ b" by simp
    with n(3) have "y \<le> 2 ^ b" by simp
    then have "1 / 2 ^ b \<le> 1 / y"
      using y(1) by (simp add: frac_le)
    then have lo: "2 powi binade x \<le> \<bar>x\<bar>"
      by (simp add: be y(3) power_int_minus_divide)
    from b(1) have "(of_nat (2 ^ (b - 1)) :: rat) \<le> of_nat n" by (simp only: of_nat_le_iff)
    then have "(2::rat) ^ (b - 1) \<le> of_nat n" by simp
    with n(2) have "2 ^ (b - 1) < y" by linarith
    then have "1 / y < 1 / 2 ^ (b - 1)"
      by (simp add: frac_less2)
    moreover have "(2::rat) powi (1 - int b) = 1 / 2 ^ (b - 1)"
      using b(3) by (simp add: power_int_def nat_diff_distrib' field_simps)
    ultimately have hi: "\<bar>x\<bar> < 2 powi (binade x + 1)"
      by (simp add: be y(3))
    from lo hi show ?thesis ..
  qed
  then show "2 powi binade x \<le> \<bar>x\<bar>" and "\<bar>x\<bar> < 2 powi (binade x + 1)"
    by simp_all
qed


lemma round_half_even_of_int [simp]: "round_half_even (of_int k) = k"
  by (simp add: round_half_even_def)

lemma round_half_even_cases:
  "round_half_even x = \<lfloor>x\<rfloor> \<or> round_half_even x = \<lfloor>x\<rfloor> + 1"
  by (simp add: round_half_even_def Let_def)

lemma round_half_even_near: "\<bar>of_int (round_half_even x) - x\<bar> \<le> 1 / 2"
proof -
  have "of_int \<lfloor>x\<rfloor> \<le> x" "x < of_int \<lfloor>x\<rfloor> + 1" by linarith+
  then show ?thesis
    unfolding round_half_even_def Let_def by (simp split: if_splits)
qed

lemma two_powi_le_D: "(2::rat) powi m \<le> 2 powi n \<Longrightarrow> m \<le> n"
proof (rule ccontr)
  assume le: "(2::rat) powi m \<le> 2 powi n" and "\<not> m \<le> n"
  then have "n < m" by simp
  then have "(2::rat) powi n < 2 powi m"
    by (rule power_int_strict_increasing) simp
  with le show False by simp
qed

lemma round_half_even_bound:
  assumes "\<bar>x\<bar> < of_int M"
  shows "\<bar>round_half_even x\<bar> \<le> M"
proof -
  from assms have "x < of_int M" "- of_int M < x" by (simp_all add: abs_less_iff)
  then have "\<lfloor>x\<rfloor> < M" "- M \<le> \<lfloor>x\<rfloor>"
    by (simp_all add: floor_less_iff le_floor_iff)
  with round_half_even_cases [of x] show ?thesis by auto
qed

text \<open>
  A rational \<open>m * 2^e\<close> with at most 53 bits in \<open>m\<close>, an exponent not below the smallest
  one and a magnitude in range is a double: rounding leaves it alone.
\<close>

lemma to_double_representable:
  assumes x: "x = of_int m * 2 powi e" and m: "\<bar>m\<bar> \<le> 2 ^ 53" and e: "- 1074 \<le> e"
    and range: "\<bar>x\<bar> < 2 ^ 1024"
  shows "to_double x = Finite x"
proof (cases "x = 0")
  case True
  then show ?thesis by (simp add: to_double_def)
next
  case False
  define b where "b = binade x"
  define q where "q = max (b - 52) (- 1074)"
  have "2 powi b \<le> \<bar>x\<bar>"
    unfolding b_def using False by (rule binade_bounds)
  also have "\<bar>x\<bar> = of_int \<bar>m\<bar> * 2 powi e"
    by (simp add: x abs_mult)
  also have "\<dots> \<le> 2 ^ 53 * 2 powi e"
  proof -
    from m have "(of_int \<bar>m\<bar> :: rat) \<le> of_int (2 ^ 53)" by (simp only: of_int_le_iff)
    then show ?thesis by (simp add: mult_right_mono)
  qed
  also have "\<dots> = 2 powi (53 + e)"
    by (simp add: power_int_add)
  finally have top: "2 powi b \<le> (2::rat) powi (53 + e)" .
  then have b_le: "b \<le> 53 + e"
    by (rule two_powi_le_D)
  have "\<exists>k. x / 2 powi q = of_int k"
  proof (cases "q \<le> e")
    case True
    have "(2::rat) powi e = 2 powi (q + (e - q))" by simp
    also have "\<dots> = 2 powi q * 2 powi (e - q)"
      by (rule power_int_add) simp
    also have "(2::rat) powi (e - q) = 2 ^ nat (e - q)"
      using True by (simp add: power_int_nonneg_exp)
    finally have "(2::rat) powi e = 2 powi q * 2 ^ nat (e - q)" .
    then have "x / 2 powi q = of_int (m * 2 ^ nat (e - q))"
      by (simp add: x)
    then show ?thesis ..
  next
    case False
    with e b_le have q: "q = e + 1" and b: "b = 53 + e"
      by (simp_all add: q_def)
    from \<open>2 powi b \<le> \<bar>x\<bar>\<close> have "2 powi (53 + e) \<le> of_int \<bar>m\<bar> * (2::rat) powi e"
      by (simp add: b x abs_mult)
    then have "(2::rat) ^ 53 * 2 powi e \<le> of_int \<bar>m\<bar> * 2 powi e"
      by (simp add: power_int_add)
    then have "(2::rat) ^ 53 \<le> of_int \<bar>m\<bar>"
      by simp
    then have "(of_int (2 ^ 53) :: rat) \<le> of_int \<bar>m\<bar>" by simp
    then have "2 ^ 53 \<le> \<bar>m\<bar>" by (simp only: of_int_le_iff)
    with m have "\<bar>m\<bar> = 2 ^ 53" by simp
    then have "even \<bar>m\<bar>" by simp
    then have "even m" by (simp add: abs_if split: if_splits)
    then obtain h where h: "m = 2 * h" by (elim evenE)
    have "(2::rat) powi q = 2 * 2 powi e"
      by (simp add: q power_int_add)
    then have "x / 2 powi q = of_int h"
      by (simp add: x h)
    then show ?thesis ..
  qed
  then obtain k where k: "x / 2 powi q = of_int k" ..
  then have restored: "of_int k * 2 powi q = x"
    by (simp add: field_simps)
  show ?thesis
    using False range
    by (simp add: to_double_def Let_def k restored flip: b_def q_def)
qed


lemma to_double_idem:
  assumes "to_double x = Finite y"
  shows "to_double y = Finite y"
proof (cases "x = 0")
  case True
  with assms show ?thesis by (simp add: to_double_def)
next
  case False
  define b where "b = binade x"
  define q where "q = max (b - 52) (- 1074)"
  define k where "k = round_half_even (x / 2 powi q)"
  from assms False have y: "y = of_int k * 2 powi q" and range: "\<bar>y\<bar> < 2 ^ 1024"
    by (simp_all add: to_double_def Let_def k_def q_def b_def split: if_splits)
  have q: "- 1074 \<le> q" "b + 1 \<le> q + 53"
    by (simp_all add: q_def)
  have "\<bar>x\<bar> < 2 powi (b + 1)"
    unfolding b_def using False by (rule binade_bounds)
  also have "(2::rat) powi (b + 1) \<le> 2 powi (q + 53)"
    using q(2) by (intro power_int_increasing) simp_all
  also have "(2::rat) powi (q + 53) = 2 powi q * 2 ^ 53"
    by (simp add: power_int_add)
  finally have "\<bar>x\<bar> / 2 powi q < 2 ^ 53"
    by (simp add: field_simps)
  then have "\<bar>x / 2 powi q\<bar> < of_int (2 ^ 53)"
    by simp
  then have "\<bar>k\<bar> \<le> 2 ^ 53"
    unfolding k_def by (rule round_half_even_bound)
  with y q(1) range show ?thesis
    by (intro to_double_representable)
qed

lemma is_double_to_double [simp]: "is_double (to_double x)"
  by (cases "to_double x") (simp_all add: to_double_idem)

lemma is_double_number_add [simp]: "is_double (number_add a b)"
  by (induction a b rule: number_add.induct) simp_all

lemma number_add_zero_right: "is_double a \<Longrightarrow> number_add a (Finite 0) = a"
  by (cases a) simp_all

lemma number_add_zero_left: "is_double b \<Longrightarrow> number_add (Finite 0) b = b"
  by (cases b) simp_all

lemma to_double_on_grid:
  assumes k: "k \<le> 1074" and g: "on_grid k x" and small: "\<bar>x\<bar> * 2 ^ k < 2 ^ 53"
  shows "to_double x = Finite x"
proof (rule to_double_representable)
  define m where "m = \<lfloor>x * 2 ^ k\<rfloor>"
  from g have m: "of_int m = x * 2 ^ k" by (simp add: on_grid_def m_def)
  then show "x = of_int m * 2 powi (- int k)"
    by (simp add: power_int_minus field_simps)
  have "\<bar>of_int m :: rat\<bar> < of_int (2 ^ 53)"
    using small by (simp add: m abs_mult)
  then have "\<bar>m\<bar> < 2 ^ 53"
    by (simp only: of_int_abs [symmetric] of_int_less_iff)
  then show "\<bar>m\<bar> \<le> 2 ^ 53" by simp
  from k show "- 1074 \<le> - int k" by simp
  have "\<bar>x\<bar> * 1 \<le> \<bar>x\<bar> * 2 ^ k"
    by (intro mult_left_mono) simp_all
  with small have "\<bar>x\<bar> < 2 ^ 53" by simp
  also have "(2::rat) ^ 53 < 2 ^ 1024" by (rule power_strict_increasing) simp_all
  finally show "\<bar>x\<bar> < 2 ^ 1024" .
qed

lemma on_grid_zero [simp]: "on_grid k 0"
  by (simp add: on_grid_def)

lemma on_grid_add:
  assumes "on_grid k x" and "on_grid k y"
  shows "on_grid k (x + y)"
proof -
  from assms have ex: "of_int \<lfloor>x * 2 ^ k\<rfloor> = x * 2 ^ k" and ey: "of_int \<lfloor>y * 2 ^ k\<rfloor> = y * 2 ^ k"
    unfolding on_grid_def by this+
  have eq: "(x + y) * 2 ^ k = of_int (\<lfloor>x * 2 ^ k\<rfloor> + \<lfloor>y * 2 ^ k\<rfloor>)"
    by (simp only: distrib_right of_int_add ex ey)
  show ?thesis
    unfolding on_grid_def eq floor_of_int ..
qed

lemma on_grid_times_int:
  assumes "on_grid k x"
  shows "on_grid k (x * of_int r)"
proof -
  from assms have ex: "of_int \<lfloor>x * 2 ^ k\<rfloor> = x * 2 ^ k"
    unfolding on_grid_def by this
  have "x * of_int r * 2 ^ k = (x * 2 ^ k) * of_int r"
    by (simp only: mult.assoc mult.commute [of "of_int r"])
  also have "\<dots> = of_int (\<lfloor>x * 2 ^ k\<rfloor> * r)"
    by (simp only: of_int_mult ex)
  finally have eq: "x * of_int r * 2 ^ k = of_int (\<lfloor>x * 2 ^ k\<rfloor> * r)" .
  show ?thesis
    unfolding on_grid_def eq floor_of_int ..
qed

lemma exact_fold:
  assumes "k \<le> 1074"
  shows "on_grid k a \<Longrightarrow> \<forall>v \<in> set vs. on_grid k v \<Longrightarrow>
     (\<bar>a\<bar> + sum_list (map abs vs)) * 2 ^ k < 2 ^ 53 \<Longrightarrow>
     foldl number_add (Finite a) (map Finite vs) = Finite (a + sum_list vs)"
proof (induction vs arbitrary: a)
  case Nil
  then show ?case by simp
next
  case (Cons v vs)
  have grid: "on_grid k (a + v)"
    using Cons.prems by (simp add: on_grid_add)
  have "\<bar>a + v\<bar> + sum_list (map abs vs) \<le> \<bar>a\<bar> + sum_list (map abs (v # vs))"
    by simp
  then have "(\<bar>a + v\<bar> + sum_list (map abs vs)) * 2 ^ k \<le> (\<bar>a\<bar> + sum_list (map abs (v # vs))) * 2 ^ k"
    by (intro mult_right_mono) simp_all
  then have bound: "(\<bar>a + v\<bar> + sum_list (map abs vs)) * 2 ^ k < 2 ^ 53"
    using Cons.prems(3) by (rule le_less_trans)
  have "0 \<le> sum_list (map abs vs)"
    by (rule sum_list_nonneg) auto
  then have "\<bar>a + v\<bar> * 2 ^ k \<le> (\<bar>a + v\<bar> + sum_list (map abs vs)) * 2 ^ k"
    by (intro mult_right_mono) simp_all
  then have "\<bar>a + v\<bar> * 2 ^ k < 2 ^ 53"
    using bound by (rule le_less_trans)
  with assms grid have "to_double (a + v) = Finite (a + v)"
    by (rule to_double_on_grid)
  with Cons.IH [OF grid _ bound] Cons.prems(2) show ?case
    by (simp add: add.assoc)
qed

section \<open>Properties of getWorkoutStats\<close>

lemma foldl_plus_sum_list:
  "foldl (\<lambda>acc x. acc + f x) a xs = a + sum_list (map f xs)"
  for a :: "'a::comm_monoid_add"
  by (induction xs arbitrary: a) (simp_all add: add.assoc)

lemma working_count_sum:
  "sum_list (map working_count exs) = spec_totalSets exs"
  by (induction exs)
     (simp_all add: spec_totalSets_def all_sets_def working_count_def sets_or_empty_def
        split: option.splits)

lemma getWorkoutStats_totalSets: "totalSets (getWorkoutStats st) = spec_totalSets (exercises st)"
  by (simp add: getWorkoutStats_def Let_def foldl_plus_sum_list working_count_sum)

text \<open>
  A set that is skipped adds zero, which changes no double; a counted set whose weight or
  reps are zero adds the product, which is zero.
\<close>

lemma counted_volume_eq:
  "counted_volume s = (if counts_for_volume s then to_double (set_volume s) else Finite 0)"
  by (auto simp add: counted_volume_def counts_for_volume_def set_volume_def truthy_def
      to_double_def split: option.splits)

lemma inner_reduce:
  "is_double acc \<Longrightarrow>
     foldl (\<lambda>setAcc s. number_add setAcc (counted_volume s)) acc xs =
       foldl number_add acc (map (\<lambda>s. to_double (set_volume s)) (filter counts_for_volume xs))"
  by (induction xs arbitrary: acc) (simp_all add: counted_volume_eq number_add_zero_right)

lemma is_double_zero: "is_double (Finite 0)"
  by (simp add: to_double_def)

lemma exercise_reduce:
  "(case sets ex of None \<Rightarrow> Finite 0
    | Some xs \<Rightarrow> foldl (\<lambda>setAcc s. number_add setAcc (counted_volume s)) (Finite 0) xs)
   = exercise_volume ex"
  by (simp add: exercise_volume_def sets_or_empty_def inner_reduce [OF is_double_zero]
      split: option.splits)

lemma getWorkoutStats_totalVolume:
  "totalVolume (getWorkoutStats st) = Math_round (double_volume (exercises st))"
proof -
  note per_exercise = exercise_reduce [unfolded counted_volume_def]
  have "foldl (\<lambda>acc ex. number_add acc
          (case sets ex of None \<Rightarrow> Finite 0
           | Some xs \<Rightarrow>
               foldl (\<lambda>setAcc s.
                        number_add setAcc
                          (if \<not> is_warmup s \<and> truthy (weight_kg s) \<and> truthy (reps s)
                           then to_double (the (weight_kg s) * of_int (the (reps s)))
                           else Finite 0))
                     (Finite 0) xs))
          a exs
        = foldl number_add a (map exercise_volume exs)" for a exs
    by (induction exs arbitrary: a) (simp_all only: foldl.simps list.map per_exercise)
  then show ?thesis
    by (simp add: getWorkoutStats_def Let_def double_volume_def)
qed

text \<open>On a grid, and small enough, the doubles make no error.\<close>

lemma on_grid_set_volume: "weight_on_grid k s \<Longrightarrow> on_grid k (set_volume s)"
  by (auto simp add: weight_on_grid_def set_volume_def on_grid_times_int split: option.splits)

lemma exact_sum_of_sets:
  assumes k: "k \<le> 1074"
    and grid: "list_all (weight_on_grid k) ss"
    and small: "sum_list (map (\<lambda>s. \<bar>set_volume s\<bar>) ss) * 2 ^ k < 2 ^ 53"
  shows "foldl number_add (Finite 0) (map (\<lambda>s. to_double (set_volume s)) ss) =
           Finite (sum_list (map set_volume ss))"
    and "on_grid k (sum_list (map set_volume ss))"
proof -
  have each: "to_double (set_volume s) = Finite (set_volume s)" if "s \<in> set ss" for s
  proof (rule to_double_on_grid [OF k])
    from that grid show "on_grid k (set_volume s)"
      by (simp add: list_all_iff on_grid_set_volume)
    have "\<bar>set_volume s\<bar> \<le> sum_list (map (\<lambda>s. \<bar>set_volume s\<bar>) ss)"
      using that by (intro member_le_sum_list) auto
    then have "\<bar>set_volume s\<bar> * 2 ^ k \<le> sum_list (map (\<lambda>s. \<bar>set_volume s\<bar>) ss) * 2 ^ k"
      by (intro mult_right_mono) simp_all
    then show "\<bar>set_volume s\<bar> * 2 ^ k < 2 ^ 53"
      using small by (rule le_less_trans)
  qed
  then have same: "map (\<lambda>s. to_double (set_volume s)) ss = map Finite (map set_volume ss)"
    by simp
  have fold: "foldl number_add (Finite 0) (map Finite (map set_volume ss)) =
      Finite (0 + sum_list (map set_volume ss))"
  proof (rule exact_fold [OF k])
    show "on_grid k 0" by simp
    from grid show "\<forall>v \<in> set (map set_volume ss). on_grid k v"
      by (auto simp add: list_all_iff on_grid_set_volume)
    from small show "(\<bar>0\<bar> + sum_list (map abs (map set_volume ss))) * 2 ^ k < 2 ^ 53"
      by (simp add: o_def)
  qed
  show "foldl number_add (Finite 0) (map (\<lambda>s. to_double (set_volume s)) ss) =
           Finite (sum_list (map set_volume ss))"
    unfolding same fold by simp
  from grid show "on_grid k (sum_list (map set_volume ss))"
    by (induction ss) (simp_all add: on_grid_add on_grid_set_volume)
qed

lemma exact_sum_of_exercises:
  assumes k: "k \<le> 1074"
  shows "on_grid k a \<Longrightarrow>
     list_all (weight_on_grid k) (filter counts_for_volume (all_sets exs)) \<Longrightarrow>
     (\<bar>a\<bar> + sum_list (map (\<lambda>s. \<bar>set_volume s\<bar>) (filter counts_for_volume (all_sets exs)))) * 2 ^ k
       < 2 ^ 53 \<Longrightarrow>
     foldl number_add (Finite a) (map exercise_volume exs) = Finite (a + exact_volume exs)"
proof (induction exs arbitrary: a)
  case Nil
  then show ?case by (simp add: exact_volume_def all_sets_def)
next
  case (Cons ex exs)
  let ?mine = "filter counts_for_volume (sets_or_empty ex)"
  let ?rest = "filter counts_for_volume (all_sets exs)"
  let ?abs = "\<lambda>ss. sum_list (map (\<lambda>s. \<bar>set_volume s\<bar>) ss)"
  have split: "filter counts_for_volume (all_sets (ex # exs)) = ?mine @ ?rest"
    by (simp add: all_sets_def)
  from Cons.prems(2) have grid: "list_all (weight_on_grid k) ?mine" "list_all (weight_on_grid k) ?rest"
    by (simp_all add: split)
  from Cons.prems(3) have total: "(\<bar>a\<bar> + (?abs ?mine + ?abs ?rest)) * 2 ^ k < 2 ^ 53"
    by (simp add: split)
  have nonneg: "0 \<le> ?abs ?mine" "0 \<le> ?abs ?rest"
    by (rule sum_list_nonneg, auto)+
  have "?abs ?mine * 2 ^ k \<le> (\<bar>a\<bar> + (?abs ?mine + ?abs ?rest)) * 2 ^ k"
    using nonneg by (intro mult_right_mono) simp_all
  then have mine_small: "?abs ?mine * 2 ^ k < 2 ^ 53"
    using total by (rule le_less_trans)
  note mine = exact_sum_of_sets [OF k grid(1) mine_small]
  define S where "S = sum_list (map set_volume ?mine)"
  have volume: "exercise_volume ex = Finite S"
    by (simp add: exercise_volume_def mine(1) S_def)
  have S_grid: "on_grid k S"
    unfolding S_def by (rule mine(2))
  have S_abs: "\<bar>S\<bar> \<le> ?abs ?mine"
    unfolding S_def using sum_list_abs [of "map set_volume ?mine"] by (simp add: o_def)
  have sum_grid: "on_grid k (a + S)"
    using Cons.prems(1) S_grid by (rule on_grid_add)
  have "\<bar>a + S\<bar> + ?abs ?rest \<le> \<bar>a\<bar> + (?abs ?mine + ?abs ?rest)"
    using S_abs by linarith
  then have "(\<bar>a + S\<bar> + ?abs ?rest) * 2 ^ k \<le> (\<bar>a\<bar> + (?abs ?mine + ?abs ?rest)) * 2 ^ k"
    by (intro mult_right_mono) simp_all
  then have rest_small: "(\<bar>a + S\<bar> + ?abs ?rest) * 2 ^ k < 2 ^ 53"
    using total by (rule le_less_trans)
  have "\<bar>a + S\<bar> * 2 ^ k \<le> (\<bar>a + S\<bar> + ?abs ?rest) * 2 ^ k"
    using nonneg by (intro mult_right_mono) simp_all
  then have "\<bar>a + S\<bar> * 2 ^ k < 2 ^ 53"
    using rest_small by (rule le_less_trans)
  with k sum_grid have step: "to_double (a + S) = Finite (a + S)"
    by (rule to_double_on_grid)
  have "exact_volume (ex # exs) = S + exact_volume exs"
    by (simp add: exact_volume_def split S_def)
  with Cons.IH [OF sum_grid grid(2) rest_small] volume step show ?case
    by (simp add: add.assoc)
qed

lemma double_volume_exact:
  assumes "volume_is_exact k exs"
  shows "double_volume exs = Finite (exact_volume exs)"
proof -
  from assms have k: "k \<le> 1074"
    and grid: "list_all (weight_on_grid k) (filter counts_for_volume (all_sets exs))"
    and small: "sum_list (map (\<lambda>s. \<bar>set_volume s\<bar>) (filter counts_for_volume (all_sets exs))) * 2 ^ k
          < 2 ^ 53"
    by (simp_all add: volume_is_exact_def)
  have "foldl number_add (Finite 0) (map exercise_volume exs) = Finite (0 + exact_volume exs)"
    using small by (intro exact_sum_of_exercises [OF k _ grid]) simp_all
  then show ?thesis by (simp add: double_volume_def)
qed

lemma totalVolume_exact:
  assumes "volume_is_exact k (exercises st)"
  shows "totalVolume (getWorkoutStats st) = Finite (of_int (spec_totalVolume (exercises st)))"
  by (simp add: getWorkoutStats_totalVolume double_volume_exact [OF assms] spec_totalVolume_def
      round_def)

text \<open>
  Claim C2, as stated, fails for the volume: the sum is taken in doubles, and a rounded
  product can leave the exact one by enough to change the integer. The weight is the
  double nearest to 0.7 and the set has five reps: the exact product lies just below 3.5
  and its nearest integer is 3, but the product in doubles is 3.5 and \<open>Math.round\<close> makes
  it 4, more than one half from the exact sum.
\<close>

theorem getWorkoutStats_double_product_counterexample:
  "is_double (Finite (3152519739159347 / 2 ^ 52))
   \<and> exact_volume (exercises rounding_state) = 15762598695796735 / 2 ^ 52
   \<and> spec_totalVolume (exercises rounding_state) = 3
   \<and> totalVolume (getWorkoutStats rounding_state) = Finite 4
   \<and> 1 / 2 < \<bar>4 - exact_volume (exercises rounding_state)\<bar>"
proof -
  have weight: "is_double (Finite (3152519739159347 / 2 ^ 52))"
    by code_simp
  have exact: "exact_volume (exercises rounding_state) = 15762598695796735 / 2 ^ 52"
    by (simp add: rounding_state_def exact_volume_def all_sets_def sets_or_empty_def
        counts_for_volume_def set_volume_def mk_slot_def mk_set_def)
  have "round (15762598695796735 / 2 ^ 52 :: rat) = 3"
    by (rule round_unique) simp_all
  then have nearest: "spec_totalVolume (exercises rounding_state) = 3"
    by (simp only: spec_totalVolume_def exact)
  have product: "to_double (15762598695796735 / 4503599627370496) = Finite (7 / 2)"
    by code_simp
  have kept: "to_double (7 / 2) = Finite (7 / 2)"
    by code_simp
  have "double_volume (exercises rounding_state) = Finite (7 / 2)"
    by (simp add: rounding_state_def double_volume_def exercise_volume_def sets_or_empty_def
        counts_for_volume_def set_volume_def mk_slot_def mk_set_def product kept)
  then have code: "totalVolume (getWorkoutStats rounding_state) = Finite 4"
    by (simp add: getWorkoutStats_totalVolume)
  have far: "1 / 2 < \<bar>4 - exact_volume (exercises rounding_state)\<bar>"
    by (simp add: exact)
  from weight exact nearest code far show ?thesis by blast
qed

text \<open>
  Claim C2, amended. \<open>totalSets\<close> is the number of non-warmup sets over all exercises.
  \<open>totalVolume\<close> is \<open>Math.round\<close> of the sum of weight times reps over the non-warmup
  sets that have both a weight and reps, each product and each addition (set by set
  within an exercise, then exercise by exercise) being rounded to a double. When every
  counted weight is a multiple of \<open>2^-k\<close> and the counted volume stays below
  \<open>2^(53-k)\<close>, nothing is rounded and \<open>totalVolume\<close> is the exact sum rounded to the
  nearest integer. The function depends on the exercise list alone: the other fields of
  the state do not influence it, and it returns no state.
\<close>

theorem getWorkoutStats_sums_in_doubles:
  "totalSets (getWorkoutStats st) = spec_totalSets (exercises st)
   \<and> totalVolume (getWorkoutStats st) = Math_round (double_volume (exercises st))
   \<and> (volume_is_exact k (exercises st) \<longrightarrow>
        totalVolume (getWorkoutStats st) = Finite (of_int (spec_totalVolume (exercises st))))
   \<and> getWorkoutStats (st\<lparr>workout := w, loading := l, st_error := e\<rparr>) = getWorkoutStats st"
proof -
  have frame: "getWorkoutStats (st\<lparr>workout := w, loading := l, st_error := e\<rparr>) = getWorkoutStats st"
    by (simp add: getWorkoutStats_def)
  from getWorkoutStats_totalSets [of st] getWorkoutStats_totalVolume [of st]
    totalVolume_exact [of k st] frame
  show ?thesis by blast
qed

theorem getWorkoutStats_sums_in_doubles_witness:
  "volume_is_exact 1 (exercises stats_state)
   \<and> totalSets (getWorkoutStats stats_state) = 3
   \<and> exact_volume (exercises stats_state) = 625 / 2
   \<and> totalVolume (getWorkoutStats stats_state) = Finite 313"
proof -
  have sets: "filter counts_for_volume (all_sets (exercises stats_state)) =
      [mk_set ''b'' ''we1'' 2 (Some (125 / 2)) (Some 5) False,
       mk_set ''d'' ''we2'' 1 (Some 0) (Some 10) False]"
    by (simp add: stats_state_def all_sets_def sets_or_empty_def counts_for_volume_def
        mk_slot_def mk_set_def del: not_None_eq)
  have "(625::rat) < 2 ^ 53" by simp
  then have fine: "volume_is_exact 1 (exercises stats_state)"
    by (simp add: volume_is_exact_def sets weight_on_grid_def on_grid_def set_volume_def
        mk_set_def)
  have count: "spec_totalSets (exercises stats_state) = 3"
    by (simp add: stats_state_def spec_totalSets_def all_sets_def sets_or_empty_def
        mk_slot_def mk_set_def)
  have exact: "exact_volume (exercises stats_state) = 625 / 2"
    by (simp add: exact_volume_def sets set_volume_def mk_set_def)
  have "round (625 / 2 :: rat) = 313"
    by (rule round_unique) simp_all
  then have rounded: "spec_totalVolume (exercises stats_state) = 313"
    by (simp only: spec_totalVolume_def exact)
  note stats = getWorkoutStats_sums_in_doubles [where st = stats_state and k = 1
      and w = None and l = False and e = None]
  from stats have sets_eq:
    "totalSets (getWorkoutStats stats_state) = spec_totalSets (exercises stats_state)"
    by blast
  from stats fine have volume_eq:
    "totalVolume (getWorkoutStats stats_state) =
       Finite (of_int (spec_totalVolume (exercises stats_state)))"
    by blast
  from fine exact show ?thesis
    by (simp add: sets_eq volume_eq count rounded)
qed

section \<open>Deleting a set\<close>

lemma removed_rows:
  "map snd (filter (\<lambda>(i, s). i \<noteq> index) (enumerate n xs)) =
     (if n \<le> index then take (index - n) xs @ drop (Suc (index - n)) xs else xs)"
proof (induction xs arbitrary: n)
  case Nil
  then show ?case by simp
next
  case (Cons x xs)
  show ?case
  proof (cases "n < index")
    case True
    then have "Suc (index - Suc n) = index - n" by simp
    with True Cons [of "Suc n"] show ?thesis
      by (simp add: take_Cons' drop_Cons')
  next
    case False
    with Cons [of "Suc n"] show ?thesis by (cases "n = index") simp_all
  qed
qed

lemma renumbered_numbers:
  "map setNumber (map (\<lambda>(i, s). s\<lparr>setNumber := int i + 1\<rparr>) (enumerate 0 xs)) =
     map int [1..<Suc (length xs)]"
proof -
  have "map setNumber (map (\<lambda>(i, s). s\<lparr>setNumber := int i + 1\<rparr>) (enumerate 0 xs)) =
          map (\<lambda>i. int i + 1) (map fst (enumerate 0 xs))"
    by (simp add: case_prod_unfold o_def del: map_fst_enumerate)
  also have "\<dots> = map (\<lambda>i. int i + 1) [0..<length xs]"
    by simp
  also have "\<dots> = map int (map Suc [0..<length xs])"
    by simp
  also have "\<dots> = map int [1..<Suc (length xs)]"
    by (simp only: map_Suc_upt One_nat_def)
  finally show ?thesis .
qed

lemma renumbered_ids:
  "map setId (map (\<lambda>(i, s). s\<lparr>setNumber := int i + 1\<rparr>) (enumerate 0 xs)) = map setId xs"
proof -
  have "map setId (map (\<lambda>(i, s). s\<lparr>setNumber := int i + 1\<rparr>) (enumerate 0 xs)) =
          map setId (map snd (enumerate 0 xs))"
    by (simp add: case_prod_unfold o_def del: map_snd_enumerate)
  then show ?thesis by simp
qed

lemma remove_and_renumber_dense:
  assumes "index < length rows"
  shows "map setNumber (remove_and_renumber index rows) = map int [1..<length rows]"
    and "length (remove_and_renumber index rows) = length rows - 1"
    and "map setId (remove_and_renumber index rows) =
           map setId (take index rows @ drop (Suc index) rows)"
proof -
  let ?kept = "take index rows @ drop (Suc index) rows"
  have kept: "map snd (filter (\<lambda>(i, s). i \<noteq> index) (enumerate 0 rows)) = ?kept"
    by (simp add: removed_rows)
  have len: "Suc (length ?kept) = length rows"
    using assms by simp
  show "map setNumber (remove_and_renumber index rows) = map int [1..<length rows]"
    unfolding remove_and_renumber_def Let_def kept renumbered_numbers len ..
  have "length (remove_and_renumber index rows) = length ?kept"
    unfolding remove_and_renumber_def Let_def kept by simp
  with len show "length (remove_and_renumber index rows) = length rows - 1"
    by simp
  show "map setId (remove_and_renumber index rows) = map setId ?kept"
    unfolding remove_and_renumber_def Let_def kept renumbered_ids ..
qed

lemma remove_and_renumber_rows:
  "remove_and_renumber index rows =
     map (\<lambda>(i, r). r\<lparr>setNumber := int i + 1\<rparr>)
         (enumerate 0 (take index rows @ drop (Suc index) rows))"
  by (simp add: remove_and_renumber_def Let_def removed_rows)

lemma handleDeleteSet_rows:
  "index < length rows \<Longrightarrow>
     \<exists>out. handleDeleteSet st wid rows index resp = Some out
           \<and> returned out = remove_and_renumber index rows"
  by (simp add: handleDeleteSet_def Let_def split: option.splits)

lemma deleteSet_success_slot:
  assumes "i < length (exercises st)" and "we_id (exercises st ! i) = wid"
  shows "sets_or_empty (exercises (next_state (deleteSet st sid wid (Inr u))) ! i) =
           filter (\<lambda>s. ws_id s \<noteq> sid) (sets_or_empty (exercises st ! i))"
  using assms by (simp add: deleteSet_def sets_or_empty_def split: option.splits)

text \<open>
  Claim C3 holds of the card and not of the session or the store. The slot holds the
  sets \<open>a\<close>, \<open>b\<close>, \<open>c\<close> numbered 1, 2, 3 and the card shows them. Deleting the first row
  issues the one delete; the card renumbers \<open>b\<close> and \<open>c\<close> to 1 and 2, while the session
  list keeps them at 2 and 3, and no request changes the stored numbers. The next row the
  card adds is numbered 3 and saved as such, so that two sets of the slot carry
  \<open>set_number\<close> 3.
\<close>

theorem deleteSet_leaves_set_numbers:
  "map (\<lambda>s. (ws_id s, set_number s)) (sets_or_empty (exercises example_state ! 0))
     = [(''a'', 1), (''b'', 2), (''c'', 3)]
   \<and> handleDeleteSet example_state ''we1'' example_card_rows 0 (Inr ())
     = Some \<lparr>issued = [DeleteSetRow ''a''], returned = example_rows_after_delete,
             next_state = example_state_after_delete\<rparr>
   \<and> map (\<lambda>r. (setId r, setNumber r)) example_rows_after_delete
     = [(Some ''b'', 1), (Some ''c'', 2)]
   \<and> map (\<lambda>s. (ws_id s, set_number s))
        (sets_or_empty (exercises example_state_after_delete ! 0))
     = [(''b'', 2), (''c'', 3)]
   \<and> nextSetNumber example_rows_after_delete = 3
   \<and> map (\<lambda>s. (ws_id s, set_number s))
        (sets_or_empty (exercises (next_state
           (logSet example_state_after_delete ''we1''
              (example_new_set\<lparr>ns_set_number := nextSetNumber example_rows_after_delete\<rparr>)
              (Inr (mk_set ''d'' ''we1'' (nextSetNumber example_rows_after_delete)
                      (Some 100) (Some 5) False)))) ! 0))
     = [(''b'', 2), (''c'', 3), (''d'', 3)]"
proof -
  have before: "map (\<lambda>s. (ws_id s, set_number s)) (sets_or_empty (exercises example_state ! 0))
     = [(''a'', 1), (''b'', 2), (''c'', 3)]"
    by (simp add: example_state_def sets_or_empty_def mk_slot_def mk_set_def)
  have rows: "remove_and_renumber 0 example_card_rows = example_rows_after_delete"
    by (simp add: remove_and_renumber_rows example_card_rows_def example_rows_after_delete_def
        mk_row_def enumerate_eq_zip upt_rec)
  have session: "next_state (deleteSet example_state ''a'' ''we1'' (Inr ())) = example_state_after_delete"
    by (simp add: deleteSet_def example_state_def example_state_after_delete_def mk_slot_def
        mk_set_def)
  have request: "issued (deleteSet example_state ''a'' ''we1'' (Inr ())) = [DeleteSetRow ''a'']"
    by (simp add: deleteSet_def)
  have handler: "handleDeleteSet example_state ''we1'' example_card_rows 0 (Inr ())
     = Some \<lparr>issued = [DeleteSetRow ''a''], returned = example_rows_after_delete,
             next_state = example_state_after_delete\<rparr>"
  proof -
    have row: "example_card_rows ! 0 = mk_row 1 True (Some ''a'')" "example_card_rows \<noteq> []"
      by (simp_all add: example_card_rows_def)
    show ?thesis
      unfolding handleDeleteSet_def Let_def
      by (simp add: row mk_row_def rows session request)
  qed
  have card: "map (\<lambda>r. (setId r, setNumber r)) example_rows_after_delete
     = [(Some ''b'', 1), (Some ''c'', 2)]"
    by (simp add: example_rows_after_delete_def mk_row_def)
  have kept: "map (\<lambda>s. (ws_id s, set_number s))
        (sets_or_empty (exercises example_state_after_delete ! 0))
     = [(''b'', 2), (''c'', 3)]"
    by (simp add: example_state_after_delete_def sets_or_empty_def mk_slot_def mk_set_def)
  have next_number: "nextSetNumber example_rows_after_delete = 3"
    by (simp add: nextSetNumber_def example_rows_after_delete_def)
  have saved: "map (\<lambda>s. (ws_id s, set_number s))
        (sets_or_empty (exercises (next_state
           (logSet example_state_after_delete ''we1''
              (example_new_set\<lparr>ns_set_number := nextSetNumber example_rows_after_delete\<rparr>)
              (Inr (mk_set ''d'' ''we1'' (nextSetNumber example_rows_after_delete)
                      (Some 100) (Some 5) False)))) ! 0))
     = [(''b'', 2), (''c'', 3), (''d'', 3)]"
    by (simp add: next_number logSet_def example_state_after_delete_def sets_or_empty_def
        mk_slot_def mk_set_def)
  from before handler card kept next_number saved show ?thesis by blast
qed

section \<open>Backend failures\<close>

lemma startWorkout_first_failure:
  "reports_failure st (startWorkout (Some uid) st template (Inl e) r2) e ''Failed to start workout''
     [InsertWorkout uid (t_id template) (t_name template) in_progress]"
  by (simp add: reports_failure_def startWorkout_def Let_def failed_def)

lemma startWorkout_second_failure:
  "reports_failure st (startWorkout (Some uid) st template (Inr w) (Inl e)) e
     ''Failed to start workout''
     [InsertWorkout uid (t_id template) (t_name template) in_progress,
      InsertWorkoutExercises (inserted_rows w template)]"
  by (simp add: reports_failure_def startWorkout_def Let_def failed_def inserted_rows_def)

lemma resumeWorkout_first_failure:
  "reports_failure st (resumeWorkout st workoutId (Inl e) r2) e ''Failed to resume workout''
     [SelectWorkout workoutId]"
  by (simp add: reports_failure_def resumeWorkout_def Let_def failed_def)

lemma resumeWorkout_second_failure:
  "reports_failure st (resumeWorkout st workoutId (Inr w) (Inl e)) e ''Failed to resume workout''
     [SelectWorkout workoutId, SelectWorkoutExercises workoutId]"
  by (simp add: reports_failure_def resumeWorkout_def Let_def failed_def)

lemma logSet_failure:
  "workout st \<noteq> None \<Longrightarrow>
     reports_failure st (logSet st wid d (Inl e)) e ''Failed to log set'' [InsertSet wid d]"
  by (auto simp add: reports_failure_def logSet_def failed_def)

lemma updateSet_failure:
  "reports_failure st (updateSet st sid updates (Inl e)) e ''Failed to update set''
     [UpdateSet sid updates]"
  by (simp add: reports_failure_def updateSet_def failed_def)

lemma deleteSet_failure:
  "reports_failure st (deleteSet st sid wid (Inl e)) e ''Failed to delete set'' [DeleteSetRow sid]"
  by (simp add: reports_failure_def deleteSet_def failed_def)

lemma swapExercise_failure:
  "reports_failure st (swapExercise st wid newId (Inl e)) e ''Failed to swap exercise''
     [UpdateWorkoutExercise wid newId True]"
  by (simp add: reports_failure_def swapExercise_def failed_def)

lemma completeWorkout_failure:
  "workout st = Some w0 \<Longrightarrow>
     reports_failure st (completeWorkout st now note_text (Inl e)) e ''Failed to complete workout''
       [UpdateWorkout (w_id w0) completed now (Some (notes_or_null note_text))]"
  by (simp add: reports_failure_def completeWorkout_def Let_def failed_def)

lemma abandonWorkout_failure:
  "workout st = Some w0 \<Longrightarrow>
     reports_failure st (abandonWorkout st now (Inl e)) e ''Failed to abandon workout''
       [UpdateWorkout (w_id w0) abandoned now None]"
  by (simp add: reports_failure_def abandonWorkout_def Let_def failed_def)

text \<open>
  Claim C4. Whichever backend request of an operation throws, the operation returns
  \<open>{ success: false, error: message }\<close>, the message being the thrown error's own
  or the operation's fallback text. Each request was issued once, and none after the
  one that threw: there is no retry. The workout and the exercise list held afterwards
  are the ones held before. \<open>logSet\<close>, \<open>completeWorkout\<close> and \<open>abandonWorkout\<close> reach
  the backend only in an active session, \<open>startWorkout\<close> only for a signed-in user.
\<close>

theorem backend_failures_are_reported:
  "reports_failure st (startWorkout (Some uid) st template (Inl e) r2) e ''Failed to start workout''
     [InsertWorkout uid (t_id template) (t_name template) in_progress]
   \<and> reports_failure st (startWorkout (Some uid) st template (Inr w) (Inl e)) e
       ''Failed to start workout''
       [InsertWorkout uid (t_id template) (t_name template) in_progress,
        InsertWorkoutExercises (inserted_rows w template)]
   \<and> reports_failure st (resumeWorkout st workoutId (Inl e) r2') e ''Failed to resume workout''
       [SelectWorkout workoutId]
   \<and> reports_failure st (resumeWorkout st workoutId (Inr w) (Inl e)) e ''Failed to resume workout''
       [SelectWorkout workoutId, SelectWorkoutExercises workoutId]
   \<and> (workout st \<noteq> None \<longrightarrow>
        reports_failure st (logSet st wid d (Inl e)) e ''Failed to log set'' [InsertSet wid d])
   \<and> reports_failure st (updateSet st sid updates (Inl e)) e ''Failed to update set''
       [UpdateSet sid updates]
   \<and> reports_failure st (deleteSet st sid wid (Inl e)) e ''Failed to delete set''
       [DeleteSetRow sid]
   \<and> reports_failure st (swapExercise st wid newId (Inl e)) e ''Failed to swap exercise''
       [UpdateWorkoutExercise wid newId True]
   \<and> (workout st = Some w0 \<longrightarrow>
        reports_failure st (completeWorkout st now note_text (Inl e)) e ''Failed to complete workout''
          [UpdateWorkout (w_id w0) completed now (Some (notes_or_null note_text))]
        \<and> reports_failure st (abandonWorkout st now (Inl e)) e ''Failed to abandon workout''
          [UpdateWorkout (w_id w0) abandoned now None])"
  by (simp add: startWorkout_first_failure startWorkout_second_failure
      resumeWorkout_first_failure resumeWorkout_second_failure logSet_failure updateSet_failure
      deleteSet_failure swapExercise_failure completeWorkout_failure abandonWorkout_failure)

theorem backend_failures_are_reported_witness:
  "workout example_state \<noteq> None \<and> workout example_state = Some example_workout
   \<and> returned (logSet example_state ''we1'' example_new_set (Inl (ErrorInstance ''Network request failed'')))
      = \<lparr>success = False, error = Some ''Network request failed'', extra = None\<rparr>
   \<and> next_state (logSet example_state ''we1'' example_new_set (Inl (ErrorInstance ''Network request failed'')))
      = example_state
   \<and> error (returned (completeWorkout example_state ''2024-05-01T11:00:00Z'' None (Inl NotAnError)))
      = Some ''Failed to complete workout''
   \<and> exercises (next_state (startWorkout (Some ''u1'') example_state example_template (Inr example_workout) (Inl NotAnError)))
      = exercises example_state"
  using backend_failures_are_reported [where st = example_state and w0 = example_workout
      and wid = "''we1''" and d = example_new_set and e = "ErrorInstance ''Network request failed''"]
    backend_failures_are_reported [where st = example_state and w0 = example_workout
      and now = "''2024-05-01T11:00:00Z''" and note_text = None and e = NotAnError
      and uid = "''u1''" and template = example_template and w = example_workout]
  by (simp add: reports_failure_def example_state_def logSet_def failed_def)

section \<open>Swapping an exercise\<close>

lemma swapExercise_success:
  "swapExercise st wid newId (Inr data) =
     \<lparr>issued = [UpdateWorkoutExercise wid newId True],
      returned = succeeded None,
      next_state = st\<lparr>exercises :=
        map (\<lambda>ex. if we_id ex = wid then data\<lparr>sets := Some []\<rparr> else ex) (exercises st)\<rparr>\<rparr>"
  by (simp add: swapExercise_def)

lemma swapExercise_target_slot:
  "i < length (exercises st) \<Longrightarrow> we_id (exercises st ! i) = wid \<Longrightarrow>
     exercises (next_state (swapExercise st wid newId (Inr data))) ! i = data\<lparr>sets := Some []\<rparr>"
  by (simp add: swapExercise_success)

lemma swapExercise_other_slot:
  "j < length (exercises st) \<Longrightarrow> we_id (exercises st ! j) \<noteq> wid \<Longrightarrow>
     exercises (next_state (swapExercise st wid newId (Inr data))) ! j = exercises st ! j"
  by (simp add: swapExercise_success)

text \<open>
  Claim C5. A successful \<open>swapExercise\<close> issues one update of the \<open>workout_exercises\<close>
  row, setting the new exercise id and \<open>is_substitution\<close>, and no delete of any set row.
  The exercise list keeps its length; the addressed slot, at the position it had, becomes
  the returned row with an empty set list, so that with the store returning the updated
  row it carries the same id, the new exercise and the substitution flag; every slot with
  another id is exactly what it was, its sets included; the workout is untouched.
\<close>

theorem swapExercise_replaces_in_place:
  "success (returned (swapExercise st wid newId (Inr data)))
   \<and> issued (swapExercise st wid newId (Inr data)) = [UpdateWorkoutExercise wid newId True]
   \<and> DeleteSetRow sid \<notin> set (issued (swapExercise st wid newId (Inr data)))
   \<and> workout (next_state (swapExercise st wid newId (Inr data))) = workout st
   \<and> length (exercises (next_state (swapExercise st wid newId (Inr data)))) = length (exercises st)
   \<and> (i < length (exercises st) \<and> we_id (exercises st ! i) = wid \<longrightarrow>
        exercises (next_state (swapExercise st wid newId (Inr data))) ! i = data\<lparr>sets := Some []\<rparr>
        \<and> sets_or_empty (exercises (next_state (swapExercise st wid newId (Inr data))) ! i) = []
        \<and> (swap_answer_ok wid newId data \<longrightarrow>
             we_id (exercises (next_state (swapExercise st wid newId (Inr data))) ! i) = wid
             \<and> we_exercise_id (exercises (next_state (swapExercise st wid newId (Inr data))) ! i) = newId
             \<and> is_substitution (exercises (next_state (swapExercise st wid newId (Inr data))) ! i)))
   \<and> (j < length (exercises st) \<and> we_id (exercises st ! j) \<noteq> wid \<longrightarrow>
        exercises (next_state (swapExercise st wid newId (Inr data))) ! j = exercises st ! j)"
proof -
  have call: "success (returned (swapExercise st wid newId (Inr data)))
     \<and> issued (swapExercise st wid newId (Inr data)) = [UpdateWorkoutExercise wid newId True]
     \<and> DeleteSetRow sid \<notin> set (issued (swapExercise st wid newId (Inr data)))
     \<and> workout (next_state (swapExercise st wid newId (Inr data))) = workout st
     \<and> length (exercises (next_state (swapExercise st wid newId (Inr data)))) = length (exercises st)"
    by (simp add: swapExercise_success succeeded_def)
  have target: "exercises (next_state (swapExercise st wid newId (Inr data))) ! i = data\<lparr>sets := Some []\<rparr>
        \<and> sets_or_empty (exercises (next_state (swapExercise st wid newId (Inr data))) ! i) = []
        \<and> (swap_answer_ok wid newId data \<longrightarrow>
             we_id (exercises (next_state (swapExercise st wid newId (Inr data))) ! i) = wid
             \<and> we_exercise_id (exercises (next_state (swapExercise st wid newId (Inr data))) ! i) = newId
             \<and> is_substitution (exercises (next_state (swapExercise st wid newId (Inr data))) ! i))"
    if "i < length (exercises st)" and "we_id (exercises st ! i) = wid"
    using that by (simp add: swapExercise_target_slot swap_answer_ok_def sets_or_empty_def)
  have others: "exercises (next_state (swapExercise st wid newId (Inr data))) ! j = exercises st ! j"
    if "j < length (exercises st)" and "we_id (exercises st ! j) \<noteq> wid"
    using that by (rule swapExercise_other_slot)
  from call target others show ?thesis by blast
qed

theorem swapExercise_replaces_in_place_witness:
  "0 < length (exercises example_state) \<and> we_id (exercises example_state ! 0) = ''we1''
   \<and> 1 < length (exercises example_state) \<and> we_id (exercises example_state ! 1) \<noteq> ''we1''
   \<and> swap_answer_ok ''we1'' ''incline'' ((mk_slot ''we1'' ''incline'' 0 None)\<lparr>is_substitution := True\<rparr>)
   \<and> length (sets_or_empty (exercises example_state ! 0)) = 3
   \<and> sets_or_empty (exercises (next_state (swapExercise example_state ''we1'' ''incline''
        (Inr ((mk_slot ''we1'' ''incline'' 0 None)\<lparr>is_substitution := True\<rparr>)))) ! 0) = []
   \<and> we_exercise_id (exercises (next_state (swapExercise example_state ''we1'' ''incline''
        (Inr ((mk_slot ''we1'' ''incline'' 0 None)\<lparr>is_substitution := True\<rparr>)))) ! 0) = ''incline''
   \<and> exercises (next_state (swapExercise example_state ''we1'' ''incline''
        (Inr ((mk_slot ''we1'' ''incline'' 0 None)\<lparr>is_substitution := True\<rparr>)))) ! 1
      = exercises example_state ! 1"
proof -
  have slots: "0 < length (exercises example_state) \<and> we_id (exercises example_state ! 0) = ''we1''
     \<and> 1 < length (exercises example_state) \<and> we_id (exercises example_state ! 1) \<noteq> ''we1''
     \<and> length (sets_or_empty (exercises example_state ! 0)) = 3"
    by (simp add: example_state_def mk_slot_def sets_or_empty_def)
  have answer: "swap_answer_ok ''we1'' ''incline''
      ((mk_slot ''we1'' ''incline'' 0 None)\<lparr>is_substitution := True\<rparr>)"
    by (simp add: swap_answer_ok_def mk_slot_def)
  from swapExercise_replaces_in_place [where st = example_state and wid = "''we1''"
      and newId = "''incline''" and i = 0 and j = 1 and sid = "''a''"
      and data = "(mk_slot ''we1'' ''incline'' 0 None)\<lparr>is_substitution := True\<rparr>"]
    slots answer
  show ?thesis by blast
qed

section \<open>Finishing a workout\<close>

text \<open>
  Claim C6. In an active session a successful \<open>completeWorkout\<close> issues one update of
  the workout row with status \<open>completed\<close> and \<open>completed_at\<close> set to the current time,
  returns success with the updated row, and leaves the cleared state (no workout, no
  exercises); a successful \<open>abandonWorkout\<close> does the same with status \<open>abandoned\<close>. With
  no workout active both issue nothing and return the failure \<open>No active workout\<close>.
\<close>

theorem finishing_clears_local_state:
  "(workout st = Some w0 \<longrightarrow>
      completeWorkout st now note_text (Inr data) =
        \<lparr>issued = [UpdateWorkout (w_id w0) completed now (Some (notes_or_null note_text))],
         returned = \<lparr>success = True, error = None, extra = Some data\<rparr>,
         next_state = \<lparr>workout = None, exercises = [], loading = False, st_error = None\<rparr>\<rparr>
      \<and> abandonWorkout st now (Inr u) =
        \<lparr>issued = [UpdateWorkout (w_id w0) abandoned now None],
         returned = \<lparr>success = True, error = None, extra = None\<rparr>,
         next_state = \<lparr>workout = None, exercises = [], loading = False, st_error = None\<rparr>\<rparr>)
   \<and> (workout st = None \<longrightarrow>
        completeWorkout st now note_text r =
          \<lparr>issued = [],
           returned = \<lparr>success = False, error = Some ''No active workout'', extra = None\<rparr>,
           next_state = st\<rparr>
        \<and> abandonWorkout st now r' =
          \<lparr>issued = [],
           returned = \<lparr>success = False, error = Some ''No active workout'', extra = None\<rparr>,
           next_state = st\<rparr>)"
  by (simp add: completeWorkout_def abandonWorkout_def Let_def succeeded_def failed_def)

theorem finishing_clears_local_state_witness:
  "workout example_state = Some example_workout \<and> workout initial_state = None
   \<and> next_state (completeWorkout example_state ''2024-05-01T11:00:00Z'' (Some ''felt strong'')
        (Inr (example_workout\<lparr>w_status := completed, w_completed_at := Some ''2024-05-01T11:00:00Z''\<rparr>)))
      = initial_state
   \<and> issued (abandonWorkout example_state ''2024-05-01T11:00:00Z'' (Inr ()))
      = [UpdateWorkout ''w1'' abandoned ''2024-05-01T11:00:00Z'' None]
   \<and> issued (completeWorkout initial_state ''2024-05-01T11:00:00Z'' None (Inl NotAnError)) = []
   \<and> error (returned (abandonWorkout initial_state ''2024-05-01T11:00:00Z'' (Inr ())))
      = Some ''No active workout''"
proof -
  have active: "workout example_state = Some example_workout"
    by (simp add: example_state_def)
  have idle: "workout initial_state = None"
    by (simp add: initial_state_def)
  from finishing_clears_local_state [where st = example_state and ?w0.0 = example_workout
      and now = "''2024-05-01T11:00:00Z''" and note_text = "Some ''felt strong''" and u = "()"
      and data = "example_workout\<lparr>w_status := completed,
        w_completed_at := Some ''2024-05-01T11:00:00Z''\<rparr>"]
    finishing_clears_local_state [where st = initial_state
      and now = "''2024-05-01T11:00:00Z''" and note_text = None and r = "Inl NotAnError"
      and r' = "Inr ()"]
    active idle
  show ?thesis by (simp add: initial_state_def example_workout_def)
qed

section \<open>Looking up the previous sets\<close>

lemma getPreviousSets_state [simp]:
  "next_state (getPreviousSets user st x ask_w ask_s) = st"
  by (simp add: getPreviousSets_def Let_def split: option.splits sum.splits)

lemma getPreviousSets_signed_out:
  "getPreviousSets None st x ask_w ask_s = \<lparr>issued = [], returned = [], next_state = st\<rparr>"
  by (simp add: getPreviousSets_def)

lemma getPreviousSets_first_fails:
  "ask_w (recent_query uid x) = Inl e \<Longrightarrow>
     returned (getPreviousSets (Some uid) st x ask_w ask_s) = []"
  by (simp add: getPreviousSets_def Let_def recent_query_def)

lemma getPreviousSets_second_fails:
  "\<forall>q. ask_s q = Inl e \<Longrightarrow> returned (getPreviousSets (Some uid) st x ask_w ask_s) = []"
  by (simp add: getPreviousSets_def Let_def split: option.splits sum.splits)

lemma getPreviousSets_refetches:
  "\<exists>qs. issued (getPreviousSets (Some uid) st x ask_w ask_s) =
     SelectWorkouts (recent_query uid x) # qs"
  by (simp add: getPreviousSets_def Let_def recent_query_def split: option.splits sum.splits)

lemma getPreviousSets_ignores_state:
  "returned (getPreviousSets user st x ask_w ask_s) =
     returned (getPreviousSets user st' x ask_w ask_s)"
  by (simp add: getPreviousSets_def Let_def split: option.splits sum.splits)

text \<open>The first query against the store.\<close>

lemma embedded_nonempty:
  "(embedded_exercises db wid x \<noteq> []) =
     list_ex (\<lambda>e. swe_workout_id e = wid \<and> swe_exercise_id e = x) (workout_exercises_table db)"
  by (simp add: embedded_exercises_def filter_empty_conv list_ex_iff)

lemma matching_candidates:
  "filter (\<lambda>w. sw_user_id w = wq_user_id (recent_query uid x)
               \<and> sw_status w = wq_status (recent_query uid x)
               \<and> embedded_exercises db (sw_id w) (wq_exercise_id (recent_query uid x)) \<noteq> [])
          (workouts_table db) = candidate_workouts db uid x"
  by (simp add: candidate_workouts_def recent_query_def embedded_nonempty)

lemma sorted_hd_least:
  "sorted (map f xs) \<Longrightarrow> y \<in> set xs \<Longrightarrow> f (hd xs) \<le> f y"
  by (cases xs) auto

lemma newest_first:
  assumes "ws \<noteq> []"
  shows "order_by_completed_at Descending ws \<noteq> []"
    and "hd (order_by_completed_at Descending ws) \<in> set ws"
    and "\<forall>w' \<in> set ws. not_earlier (hd (order_by_completed_at Descending ws)) w'"
proof -
  let ?undated = "filter (\<lambda>w. sw_completed_at w = None) ws"
  let ?dated = "filter (\<lambda>w. sw_completed_at w \<noteq> None) ws"
  let ?key = "\<lambda>w. - the (sw_completed_at w)"
  have ordered: "order_by_completed_at Descending ws = ?undated @ sort_key ?key ?dated"
    by (simp add: order_by_completed_at_def)
  have "length (order_by_completed_at Descending ws) = length ws"
    unfolding ordered by (simp add: sum_length_filter_compl [of "\<lambda>w. sw_completed_at w = None" ws, symmetric] del: not_None_eq)
  with assms show nonempty: "order_by_completed_at Descending ws \<noteq> []"
    by auto
  have "set (order_by_completed_at Descending ws) = set ws"
    unfolding ordered by auto
  with nonempty show "hd (order_by_completed_at Descending ws) \<in> set ws"
    using hd_in_set by blast
  show "\<forall>w' \<in> set ws. not_earlier (hd (order_by_completed_at Descending ws)) w'"
  proof (cases "?undated = []")
    case False
    then have "hd (order_by_completed_at Descending ws) = hd ?undated"
      by (simp add: ordered)
    moreover from False have "hd ?undated \<in> set ?undated"
      by (rule hd_in_set)
    ultimately have "sw_completed_at (hd (order_by_completed_at Descending ws)) = None"
      by simp
    then show ?thesis by (simp add: not_earlier_def)
  next
    case True
    then have all_dated: "\<forall>w \<in> set ws. sw_completed_at w \<noteq> None"
      by (simp add: filter_empty_conv)
    then have dated: "?dated = ws"
      by (simp del: not_None_eq)
    have head: "hd (order_by_completed_at Descending ws) = hd (sort_key ?key ws)"
      by (simp only: ordered True dated append_Nil)
    show ?thesis
    proof
      fix w' assume w': "w' \<in> set ws"
      have "sorted (map ?key (sort_key ?key ws))"
        by (rule sorted_sort_key)
      moreover from w' have "w' \<in> set (sort_key ?key ws)" by simp
      ultimately have "?key (hd (sort_key ?key ws)) \<le> ?key w'"
        by (rule sorted_hd_least)
      moreover have "hd (sort_key ?key ws) \<in> set ws"
        using assms by (metis hd_in_set set_sort length_sort length_0_conv)
      ultimately show "not_earlier (hd (order_by_completed_at Descending ws)) w'"
        using all_dated w' by (auto simp add: head not_earlier_def split: option.splits)
    qed
  qed
qed

lemma run_recent_query:
  "candidate_workouts db uid x = [] \<Longrightarrow>
     run_workouts_query db (recent_query uid x) = Inl NotAnError"
  "candidate_workouts db uid x \<noteq> [] \<Longrightarrow>
     run_workouts_query db (recent_query uid x) =
       Inr (Some \<lparr>rw_id = sw_id (hd (order_by_completed_at Descending (candidate_workouts db uid x))),
                  rw_workout_exercises =
                    embedded_exercises db
                      (sw_id (hd (order_by_completed_at Descending (candidate_workouts db uid x)))) x\<rparr>)"
proof -
  have run: "run_workouts_query db (recent_query uid x) =
      (case take 1 (order_by_completed_at Descending (candidate_workouts db uid x)) of
         [w] \<Rightarrow> Inr (Some \<lparr>rw_id = sw_id w,
                           rw_workout_exercises = embedded_exercises db (sw_id w) x\<rparr>)
       | _ \<Rightarrow> Inl NotAnError)"
    unfolding run_workouts_query_def Let_def matching_candidates
    by (simp add: recent_query_def split: list.splits)
  show "run_workouts_query db (recent_query uid x) = Inl NotAnError"
    if "candidate_workouts db uid x = []"
    using that by (simp add: run order_by_completed_at_def)
  show "run_workouts_query db (recent_query uid x) =
       Inr (Some \<lparr>rw_id = sw_id (hd (order_by_completed_at Descending (candidate_workouts db uid x))),
                  rw_workout_exercises =
                    embedded_exercises db
                      (sw_id (hd (order_by_completed_at Descending (candidate_workouts db uid x)))) x\<rparr>)"
    if "candidate_workouts db uid x \<noteq> []"
  proof -
    from newest_first(1) [OF that] obtain w rest
      where "order_by_completed_at Descending (candidate_workouts db uid x) = w # rest"
      by (cases "order_by_completed_at Descending (candidate_workouts db uid x)") auto
    then show ?thesis by (simp add: run)
  qed
qed

text \<open>The embedded rows and the first slot.\<close>

lemma find_first_of_filter:
  "find P (map f (filter Q xs)) = map_option f (find Q xs)" if "\<And>y. Q y \<Longrightarrow> P (f y)"
  using that by (induction xs) auto

lemma find_embedded:
  "find (\<lambda>we. rwe_exercise_id we = x) (embedded_exercises db (sw_id w) x) =
     map_option (\<lambda>e. \<lparr>rwe_id = swe_id e, rwe_exercise_id = swe_exercise_id e\<rparr>) (first_slot db w x)"
  unfolding embedded_exercises_def first_slot_def
  by (rule find_first_of_filter) simp

lemma candidate_has_slot:
  "w \<in> set (candidate_workouts db uid x) \<Longrightarrow> \<exists>slot. first_slot db w x = Some slot"
  by (cases "first_slot db w x")
     (auto simp add: candidate_workouts_def first_slot_def find_None_iff list_ex_iff)

text \<open>The second query against the store, and what the client makes of its answer.\<close>

lemma run_working_sets_query:
  "run_sets_query db (working_sets_query slotId) =
     Inr (Some (map (\<lambda>s. \<lparr>sr_set_number = set_number s, sr_weight_kg = weight_kg s,
                           sr_reps = reps s\<rparr>)
                    (sort_key set_number
                       (filter (\<lambda>s. ws_workout_exercise_id s = slotId \<and> \<not> is_warmup s)
                               (workout_sets_table db)))))"
  by (simp add: run_sets_query_def working_sets_query_def order_by_set_number_def)

lemma entries_of_rows:
  "map entry_of
     (map (\<lambda>s. \<lparr>ps_exercise_id = x, ps_weight_kg = the (sr_weight_kg s),
                ps_reps = the (sr_reps s), ps_set_number = sr_set_number s\<rparr>)
          (filter (\<lambda>s. truthy (sr_weight_kg s) \<and> truthy (sr_reps s))
                  (map (\<lambda>s. \<lparr>sr_set_number = set_number s, sr_weight_kg = weight_kg s,
                             sr_reps = reps s\<rparr>) ss))) =
   map (entry_for x) (filter usable ss)"
  by (induction ss) (auto simp add: entry_of_def entry_for_def usable_def truthy_def split: option.splits)

lemma set_numbers_of_rows:
  "map ps_set_number
     (map (\<lambda>s. \<lparr>ps_exercise_id = x, ps_weight_kg = the (sr_weight_kg s),
                ps_reps = the (sr_reps s), ps_set_number = sr_set_number s\<rparr>)
          (filter (\<lambda>s. truthy (sr_weight_kg s) \<and> truthy (sr_reps s))
                  (map (\<lambda>s. \<lparr>sr_set_number = set_number s, sr_weight_kg = weight_kg s,
                             sr_reps = reps s\<rparr>) ss))) =
   map set_number (filter usable ss)"
  by (induction ss) (auto simp add: usable_def)

lemma sorted_map_filter:
  "sorted (map f xs) \<Longrightarrow> sorted (map f (filter P xs))"
  by (induction xs) auto


lemma getPreviousSets_on_store:
  assumes cands: "candidate_workouts db uid x \<noteq> []"
  defines "w \<equiv> hd (order_by_completed_at Descending (candidate_workouts db uid x))"
  assumes slot: "first_slot db w x = Some slot"
  shows "getPreviousSets (Some uid) st x (run_workouts_query db) (run_sets_query db) =
     \<lparr>issued = [SelectWorkouts (recent_query uid x), SelectSets (working_sets_query (swe_id slot))],
      returned =
        map (\<lambda>s. \<lparr>ps_exercise_id = x, ps_weight_kg = the (sr_weight_kg s),
                   ps_reps = the (sr_reps s), ps_set_number = sr_set_number s\<rparr>)
            (filter (\<lambda>s. truthy (sr_weight_kg s) \<and> truthy (sr_reps s))
               (map (\<lambda>s. \<lparr>sr_set_number = set_number s, sr_weight_kg = weight_kg s,
                          sr_reps = reps s\<rparr>)
                    (sort_key set_number
                       (filter (\<lambda>s. ws_workout_exercise_id s = swe_id slot \<and> \<not> is_warmup s)
                               (workout_sets_table db))))),
      next_state = st\<rparr>"
proof -
  have first: "run_workouts_query db (recent_query uid x) =
      Inr (Some \<lparr>rw_id = sw_id w, rw_workout_exercises = embedded_exercises db (sw_id w) x\<rparr>)"
    unfolding w_def by (rule run_recent_query(2) [OF cands])
  have found: "find (\<lambda>we. rwe_exercise_id we = x) (embedded_exercises db (sw_id w) x) =
      Some \<lparr>rwe_id = swe_id slot, rwe_exercise_id = swe_exercise_id slot\<rparr>"
    by (simp add: find_embedded slot)
  have second: "run_sets_query db (working_sets_query (swe_id slot)) =
     Inr (Some (map (\<lambda>s. \<lparr>sr_set_number = set_number s, sr_weight_kg = weight_kg s,
                           sr_reps = reps s\<rparr>)
                    (sort_key set_number
                       (filter (\<lambda>s. ws_workout_exercise_id s = swe_id slot \<and> \<not> is_warmup s)
                               (workout_sets_table db)))))"
    by (rule run_working_sets_query)
  show ?thesis
    unfolding getPreviousSets_def Let_def recent_query_def [symmetric]
    by (simp add: first found second working_sets_query_def [symmetric])
qed

text \<open>
  Claim C7, as stated, fails. In \<open>example_store\<close> the most recently completed workout of
  \<open>u1\<close> that contains pull-ups is \<open>w2\<close>; its pull-up slots hold four non-warmup sets,
  three in the first slot and one in the second. The look-up returns one of them: the
  sets without a weight and with weight 0 are dropped on the client, and the second slot
  is never asked for.
\<close>

theorem getPreviousSets_drops_sets_counterexample:
  "map sw_id (candidate_workouts example_store ''u1'' ''pullup'') = [''w1'', ''w2'']
   \<and> map (\<lambda>s. (ws_workout_exercise_id s, set_number s, weight_kg s, reps s))
        (filter (\<lambda>s. ws_workout_exercise_id s \<in> {''we9'', ''we10''} \<and> \<not> is_warmup s)
                (workout_sets_table example_store))
      = [(''we9'', 3, Some 20, Some 8), (''we9'', 1, None, Some 10),
         (''we9'', 2, Some 0, Some 10), (''we10'', 1, Some 25, Some 6)]
   \<and> returned (getPreviousSets (Some ''u1'') initial_state ''pullup''
        (run_workouts_query example_store) (run_sets_query example_store))
      = [\<lparr>ps_exercise_id = ''pullup'', ps_weight_kg = 20, ps_reps = 8, ps_set_number = 3\<rparr>]"
  by (simp add: getPreviousSets_def Let_def run_workouts_query_def run_sets_query_def
      order_by_completed_at_def order_by_set_number_def embedded_exercises_def
      candidate_workouts_def example_store_def mk_set_def truthy_def)

text \<open>
  Claim C7, amended. Without a signed-in user nothing is issued and the result is empty;
  it is empty as well when the first query fails and when the second one does. Against a
  store, the result is empty when the user has no completed workout containing the
  exercise. Otherwise there is such a workout than which none was completed later (in
  the store's order, where a missing \<open>completed_at\<close> sorts as latest), the second query
  addresses its first slot holding the exercise, and the result holds, in ascending
  \<open>set_number\<close>, one entry for each non-warmup set of that slot whose weight and reps are
  both present and not zero, carrying the exercise id and that set's number, weight and
  reps. The state is returned as it was and does not influence the result, and every call
  of a signed-in user issues the first query again: nothing is cached.
\<close>

theorem getPreviousSets_finds_latest_usable_sets:
  "getPreviousSets None st x ask_w ask_s = \<lparr>issued = [], returned = [], next_state = st\<rparr>
   \<and> (ask_w (recent_query uid x) = Inl e \<longrightarrow>
        returned (getPreviousSets (Some uid) st x ask_w ask_s) = [])
   \<and> ((\<forall>q. ask_s q = Inl e) \<longrightarrow> returned (getPreviousSets (Some uid) st x ask_w ask_s) = [])
   \<and> next_state (getPreviousSets user st x ask_w ask_s) = st
   \<and> returned (getPreviousSets user st x ask_w ask_s) =
       returned (getPreviousSets user st' x ask_w ask_s)
   \<and> (\<exists>qs. issued (getPreviousSets (Some uid) st x ask_w ask_s) =
         SelectWorkouts (recent_query uid x) # qs)
   \<and> (candidate_workouts db uid x = [] \<longrightarrow>
        returned (getPreviousSets (Some uid) st x (run_workouts_query db) (run_sets_query db)) = [])
   \<and> (candidate_workouts db uid x \<noteq> [] \<longrightarrow>
        (\<exists>w slot.
           w \<in> set (candidate_workouts db uid x)
           \<and> (\<forall>w' \<in> set (candidate_workouts db uid x). not_earlier w w')
           \<and> first_slot db w x = Some slot
           \<and> issued (getPreviousSets (Some uid) st x (run_workouts_query db) (run_sets_query db)) =
               [SelectWorkouts (recent_query uid x), SelectSets (working_sets_query (swe_id slot))]
           \<and> map entry_of
               (returned (getPreviousSets (Some uid) st x (run_workouts_query db) (run_sets_query db))) =
              map (entry_for x)
               (sort_key set_number
                  (filter (\<lambda>s. ws_workout_exercise_id s = swe_id slot \<and> \<not> is_warmup s \<and> usable s)
                          (workout_sets_table db)))
           \<and> sorted (map ps_set_number
               (returned (getPreviousSets (Some uid) st x (run_workouts_query db) (run_sets_query db))))))"
proof -
  have none: "returned (getPreviousSets (Some uid) st x (run_workouts_query db) (run_sets_query db)) = []"
    if "candidate_workouts db uid x = []"
    using run_recent_query(1) [OF that] by (rule getPreviousSets_first_fails)
  have some: "\<exists>w slot.
           w \<in> set (candidate_workouts db uid x)
           \<and> (\<forall>w' \<in> set (candidate_workouts db uid x). not_earlier w w')
           \<and> first_slot db w x = Some slot
           \<and> issued (getPreviousSets (Some uid) st x (run_workouts_query db) (run_sets_query db)) =
               [SelectWorkouts (recent_query uid x), SelectSets (working_sets_query (swe_id slot))]
           \<and> map entry_of
               (returned (getPreviousSets (Some uid) st x (run_workouts_query db) (run_sets_query db))) =
              map (entry_for x)
               (sort_key set_number
                  (filter (\<lambda>s. ws_workout_exercise_id s = swe_id slot \<and> \<not> is_warmup s \<and> usable s)
                          (workout_sets_table db)))
           \<and> sorted (map ps_set_number
               (returned (getPreviousSets (Some uid) st x (run_workouts_query db) (run_sets_query db))))"
    if cands: "candidate_workouts db uid x \<noteq> []"
  proof -
    define w where "w = hd (order_by_completed_at Descending (candidate_workouts db uid x))"
    note latest = newest_first [OF cands, folded w_def]
    from candidate_has_slot [OF latest(2)] obtain slot where slot: "first_slot db w x = Some slot" ..
    note out = getPreviousSets_on_store [OF cands slot [unfolded w_def], of st]
    let ?mine = "filter (\<lambda>s. ws_workout_exercise_id s = swe_id slot \<and> \<not> is_warmup s)
                        (workout_sets_table db)"
    have entries: "map entry_of
        (returned (getPreviousSets (Some uid) st x (run_workouts_query db) (run_sets_query db))) =
        map (entry_for x) (filter usable (sort_key set_number ?mine))"
      by (simp only: out outcome.simps entries_of_rows)
    have "filter usable (sort_key set_number ?mine) =
        sort_key set_number
          (filter (\<lambda>s. ws_workout_exercise_id s = swe_id slot \<and> \<not> is_warmup s \<and> usable s)
                  (workout_sets_table db))"
      by (simp add: filter_sort conj_commute conj_left_commute)
    with entries have entries': "map entry_of
        (returned (getPreviousSets (Some uid) st x (run_workouts_query db) (run_sets_query db))) =
        map (entry_for x)
          (sort_key set_number
             (filter (\<lambda>s. ws_workout_exercise_id s = swe_id slot \<and> \<not> is_warmup s \<and> usable s)
                     (workout_sets_table db)))"
      by simp
    have "sorted (map set_number (filter usable (sort_key set_number ?mine)))"
      by (intro sorted_map_filter sorted_sort_key)
    then have ascending: "sorted (map ps_set_number
        (returned (getPreviousSets (Some uid) st x (run_workouts_query db) (run_sets_query db))))"
      by (simp only: out outcome.simps set_numbers_of_rows)
    have requests: "issued (getPreviousSets (Some uid) st x (run_workouts_query db) (run_sets_query db)) =
        [SelectWorkouts (recent_query uid x), SelectSets (working_sets_query (swe_id slot))]"
      by (simp only: out outcome.simps)
    from latest(2,3) slot requests entries' ascending show ?thesis by blast
  qed
  have basics: "getPreviousSets None st x ask_w ask_s = \<lparr>issued = [], returned = [], next_state = st\<rparr>
     \<and> (ask_w (recent_query uid x) = Inl e \<longrightarrow>
          returned (getPreviousSets (Some uid) st x ask_w ask_s) = [])
     \<and> ((\<forall>q. ask_s q = Inl e) \<longrightarrow> returned (getPreviousSets (Some uid) st x ask_w ask_s) = [])
     \<and> next_state (getPreviousSets user st x ask_w ask_s) = st"
    by (simp add: getPreviousSets_signed_out getPreviousSets_first_fails
        getPreviousSets_second_fails)
  have same: "returned (getPreviousSets user st x ask_w ask_s) =
       returned (getPreviousSets user st' x ask_w ask_s)"
    by (rule getPreviousSets_ignores_state)
  have refetch: "\<exists>qs. issued (getPreviousSets (Some uid) st x ask_w ask_s) =
         SelectWorkouts (recent_query uid x) # qs"
    by (rule getPreviousSets_refetches)
  from basics same refetch none some show ?thesis by blast
qed


theorem getPreviousSets_finds_latest_usable_sets_witness:
  "candidate_workouts example_store ''u3'' ''pullup'' = []
   \<and> returned (getPreviousSets (Some ''u3'') initial_state ''pullup''
        (run_workouts_query example_store) (run_sets_query example_store)) = []
   \<and> candidate_workouts example_store ''u1'' ''pullup'' \<noteq> []
   \<and> map entry_of
        (returned (getPreviousSets (Some ''u1'') initial_state ''pullup''
           (run_workouts_query example_store) (run_sets_query example_store)))
      = [(''pullup'', 3, Some 20, Some 8)]
   \<and> sorted (map ps_set_number
        (returned (getPreviousSets (Some ''u1'') initial_state ''pullup''
           (run_workouts_query example_store) (run_sets_query example_store))))"
proof -
  let ?w1 = "\<lparr>sw_id = ''w1'', sw_user_id = ''u1'', sw_status = completed, sw_completed_at = Some 100\<rparr>"
  let ?w2 = "\<lparr>sw_id = ''w2'', sw_user_id = ''u1'', sw_status = completed, sw_completed_at = Some 200\<rparr>"
  let ?out = "getPreviousSets (Some ''u1'') initial_state ''pullup''
      (run_workouts_query example_store) (run_sets_query example_store)"
  have nobody: "candidate_workouts example_store ''u3'' ''pullup'' = []"
    by (simp add: candidate_workouts_def example_store_def)
  have mine: "candidate_workouts example_store ''u1'' ''pullup'' = [?w1, ?w2]"
    by (simp add: candidate_workouts_def example_store_def)
  note empty = getPreviousSets_finds_latest_usable_sets [where db = example_store
      and uid = "''u3''" and x = "''pullup''" and st = initial_state]
  note found = getPreviousSets_finds_latest_usable_sets [where db = example_store
      and uid = "''u1''" and x = "''pullup''" and st = initial_state]
  from empty nobody have none: "returned (getPreviousSets (Some ''u3'') initial_state ''pullup''
        (run_workouts_query example_store) (run_sets_query example_store)) = []"
    by blast
  from mine have some: "candidate_workouts example_store ''u1'' ''pullup'' \<noteq> []"
    by simp
  with found obtain w slot
    where w: "w \<in> set (candidate_workouts example_store ''u1'' ''pullup'')"
      and latest: "\<forall>w' \<in> set (candidate_workouts example_store ''u1'' ''pullup''). not_earlier w w'"
      and slot: "first_slot example_store w ''pullup'' = Some slot"
      and entries: "map entry_of (returned ?out) =
          map (entry_for ''pullup'')
            (sort_key set_number
               (filter (\<lambda>s. ws_workout_exercise_id s = swe_id slot \<and> \<not> is_warmup s \<and> usable s)
                       (workout_sets_table example_store)))"
      and ascending: "sorted (map ps_set_number (returned ?out))"
    by blast
  from w latest have "w = ?w2"
    by (auto simp add: mine not_earlier_def)
  with slot have "swe_id slot = ''we9''"
    by (auto simp add: first_slot_def example_store_def)
  with entries have "map entry_of (returned ?out) = [(''pullup'', 3, Some 20, Some 8)]"
    by (simp add: example_store_def mk_set_def usable_def truthy_def entry_for_def)
  with nobody none some ascending show ?thesis by blast
qed

section \<open>The rest timer\<close>

lemma timer_step_nonneg:
  "0 \<le> remainingSeconds st \<Longrightarrow> 0 \<le> remainingSeconds (fst (timer_step st ev))"
  by (cases ev) (simp_all add: tick_def togglePause_def adjustTime_def)

lemma timer_step_visible [simp]: "visible (fst (timer_step st ev)) = visible st"
  by (cases ev) (simp_all add: tick_def togglePause_def adjustTime_def)

lemma timer_run_nonneg:
  "0 \<le> remainingSeconds st \<Longrightarrow> 0 \<le> remainingSeconds (timer_run st evs)"
  by (induction st evs rule: timer_run.induct) (simp_all add: timer_step_nonneg)

lemma timer_run_visible [simp]: "visible (timer_run st evs) = visible st"
  by (induction st evs rule: timer_run.induct) simp_all

lemma tick_paused: "isPaused st \<Longrightarrow> tick st = (st, [])"
  by (simp add: tick_def)

lemma tick_running:
  assumes "visible st" and "\<not> isPaused st"
  shows "1 \<le> remainingSeconds st \<Longrightarrow> remainingSeconds (fst (tick st)) = remainingSeconds st - 1"
    and "remainingSeconds st \<le> 0 \<Longrightarrow> remainingSeconds (fst (tick st)) = 0"
    and "(snd (tick st) = [Vibrate, OnClose]) = (remainingSeconds st \<le> 1)"
    and "isPaused (fst (tick st)) = isPaused st"
  using assms by (auto simp add: tick_def)

text \<open>
  Claim C8, as stated, fails in two places. A negative duration is shown as it is given,
  so the value starts below zero. And an unpaused tick does not always take one off: ten
  seconds, minus fifteen, gives zero by the clamp, and the next tick of the visible,
  running timer leaves zero where taking one off would give minus one.
\<close>

theorem rest_timer_tick_at_zero_counterexample:
  "remainingSeconds (open_timer (- 5)) < 0
   \<and> visible (timer_run (open_timer 10) [AdjustTime (- 15)])
   \<and> \<not> isPaused (timer_run (open_timer 10) [AdjustTime (- 15)])
   \<and> remainingSeconds (timer_run (open_timer 10) [AdjustTime (- 15)]) = 0
   \<and> remainingSeconds (timer_run (open_timer 10) [AdjustTime (- 15), Tick]) = 0
   \<and> remainingSeconds (timer_run (open_timer 10) [AdjustTime (- 15), Tick])
       \<noteq> remainingSeconds (timer_run (open_timer 10) [AdjustTime (- 15)]) - 1"
  by (simp add: open_timer_def adjustTime_def tick_def)

text \<open>
  Claim C8, amended. Started with a non-negative duration, after any sequence of ticks,
  pause toggles and adjustments the remaining seconds are not negative, and an adjustment
  gives the sum clamped at zero. A tick while paused changes nothing and signals nothing.
  A tick of the running timer takes exactly one off a value of at least one and leaves a
  value of zero at zero; it signals completion (vibration, then close) exactly when the
  value before it was at most one, so on the step from one to zero and on a tick at zero.
\<close>

theorem rest_timer_countdown:
  "0 \<le> duration \<longrightarrow>
     0 \<le> remainingSeconds (timer_run (open_timer duration) evs)
     \<and> remainingSeconds (adjustTime delta (timer_run (open_timer duration) evs)) =
         max 0 (remainingSeconds (timer_run (open_timer duration) evs) + delta)
     \<and> (isPaused (timer_run (open_timer duration) evs) \<longrightarrow>
          tick (timer_run (open_timer duration) evs) = (timer_run (open_timer duration) evs, []))
     \<and> (\<not> isPaused (timer_run (open_timer duration) evs) \<longrightarrow>
          (1 \<le> remainingSeconds (timer_run (open_timer duration) evs) \<longrightarrow>
             remainingSeconds (fst (tick (timer_run (open_timer duration) evs))) =
               remainingSeconds (timer_run (open_timer duration) evs) - 1)
          \<and> (remainingSeconds (timer_run (open_timer duration) evs) = 0 \<longrightarrow>
               remainingSeconds (fst (tick (timer_run (open_timer duration) evs))) = 0)
          \<and> (snd (tick (timer_run (open_timer duration) evs)) = [Vibrate, OnClose]) =
              (remainingSeconds (timer_run (open_timer duration) evs) \<le> 1))"
proof
  assume d: "0 \<le> duration"
  let ?st = "timer_run (open_timer duration) evs"
  have nonneg: "0 \<le> remainingSeconds ?st"
    using d by (simp add: timer_run_nonneg open_timer_def)
  have shown: "visible ?st"
    by (simp add: open_timer_def)
  have clamp: "remainingSeconds (adjustTime delta ?st) = max 0 (remainingSeconds ?st + delta)"
    by (simp add: adjustTime_def)
  have paused: "isPaused ?st \<longrightarrow> tick ?st = (?st, [])"
    by (simp add: tick_paused)
  have running: "\<not> isPaused ?st \<longrightarrow>
          (1 \<le> remainingSeconds ?st \<longrightarrow>
             remainingSeconds (fst (tick ?st)) = remainingSeconds ?st - 1)
          \<and> (remainingSeconds ?st = 0 \<longrightarrow> remainingSeconds (fst (tick ?st)) = 0)
          \<and> (snd (tick ?st) = [Vibrate, OnClose]) = (remainingSeconds ?st \<le> 1)"
    using tick_running [OF shown] by simp
  from nonneg clamp paused running
  show "0 \<le> remainingSeconds ?st
     \<and> remainingSeconds (adjustTime delta ?st) = max 0 (remainingSeconds ?st + delta)
     \<and> (isPaused ?st \<longrightarrow> tick ?st = (?st, []))
     \<and> (\<not> isPaused ?st \<longrightarrow>
          (1 \<le> remainingSeconds ?st \<longrightarrow>
             remainingSeconds (fst (tick ?st)) = remainingSeconds ?st - 1)
          \<and> (remainingSeconds ?st = 0 \<longrightarrow> remainingSeconds (fst (tick ?st)) = 0)
          \<and> (snd (tick ?st) = [Vibrate, OnClose]) = (remainingSeconds ?st \<le> 1))"
    by blast
qed

theorem rest_timer_countdown_witness:
  "(0::int) \<le> 3
   \<and> \<not> isPaused (timer_run (open_timer 3) [Tick, TogglePause, Tick, TogglePause, Tick])
   \<and> remainingSeconds (timer_run (open_timer 3) [Tick, TogglePause, Tick, TogglePause, Tick]) = 1
   \<and> remainingSeconds (fst (tick (timer_run (open_timer 3) [Tick, TogglePause, Tick, TogglePause, Tick]))) = 0
   \<and> snd (tick (timer_run (open_timer 3) [Tick, TogglePause, Tick, TogglePause, Tick])) = [Vibrate, OnClose]
   \<and> isPaused (timer_run (open_timer 3) [Tick, TogglePause])
   \<and> tick (timer_run (open_timer 3) [Tick, TogglePause]) = (timer_run (open_timer 3) [Tick, TogglePause], [])"
proof -
  have a: "\<not> isPaused (timer_run (open_timer 3) [Tick, TogglePause, Tick, TogglePause, Tick])
     \<and> remainingSeconds (timer_run (open_timer 3) [Tick, TogglePause, Tick, TogglePause, Tick]) = 1"
    by (simp add: open_timer_def tick_def togglePause_def)
  have b: "isPaused (timer_run (open_timer 3) [Tick, TogglePause])"
    by (simp add: open_timer_def tick_def togglePause_def)
  from rest_timer_countdown [where duration = 3
      and evs = "[Tick, TogglePause, Tick, TogglePause, Tick]" and delta = 15]
    rest_timer_countdown [where duration = 3 and evs = "[Tick, TogglePause]" and delta = 15]
    a b
  show ?thesis by simp
qed

section \<open>Starting a workout and logging the first set\<close>

lemma startWorkout_success:
  "startWorkout (Some uid) st template (Inr w) (Inr rows) =
     \<lparr>issued = [InsertWorkout uid (t_id template) (t_name template) in_progress,
                InsertWorkoutExercises (inserted_rows w template)],
      returned = succeeded (Some (w_id w)),
      next_state = \<lparr>workout = Some w, exercises = map (with_targets template) rows,
                    loading = False, st_error = None\<rparr>\<rparr>"
  by (simp add: startWorkout_def Let_def inserted_rows_def with_targets_def)

lemma with_targets_row [simp]:
  "we_id (with_targets template ex) = we_id ex"
  "we_exercise_id (with_targets template ex) = we_exercise_id ex"
  "we_template_exercise_id (with_targets template ex) = we_template_exercise_id ex"
  "sets (with_targets template ex) = Some []"
  by (simp_all add: with_targets_def Let_def)

lemma with_targets_three:
  assumes "\<forall>te \<in> set (template_exercises template). te_target_sets te = 3"
  shows "targetSets (with_targets template ex) = Some 3"
proof (cases "find (\<lambda>te. te_exercise_id te = we_exercise_id ex) (template_exercises template)")
  case None
  then show ?thesis by (simp add: with_targets_def)
next
  case (Some te)
  then have "te \<in> set (template_exercises template)"
    by (auto simp add: find_Some_iff)
  with assms Some show ?thesis by (simp add: with_targets_def)
qed

lemma insert_answer_columns:
  assumes "insert_answer_ok (inserted_rows w template) rows"
  shows "length rows = length (template_exercises template)"
    and "map we_exercise_id rows = map te_exercise_id (template_exercises template)"
    and "map we_template_exercise_id rows = map (\<lambda>te. Some (te_id te)) (template_exercises template)"
    and "distinct (map we_id rows)"
proof -
  let ?P = "\<lambda>n r. we_workout_id r = nwe_workout_id n
                      \<and> we_exercise_id r = nwe_exercise_id n
                      \<and> we_order_index r = nwe_order_index n
                      \<and> we_template_exercise_id r = Some (nwe_template_exercise_id n)
                      \<and> is_substitution r = nwe_is_substitution n"
  from assms have all2: "list_all2 ?P (inserted_rows w template) rows"
    and d: "distinct (map we_id rows)"
    by (simp_all add: insert_answer_ok_def)
  from all2 have len: "length (inserted_rows w template) = length rows"
    by (rule list_all2_lengthD)
  then show "length rows = length (template_exercises template)"
    by (simp add: inserted_rows_def)
  from all2 have "map we_exercise_id rows = map nwe_exercise_id (inserted_rows w template)"
    by (induction rule: list_all2_induct) simp_all
  then show "map we_exercise_id rows = map te_exercise_id (template_exercises template)"
    by (simp add: inserted_rows_def o_def)
  from all2 have "map we_template_exercise_id rows =
      map (\<lambda>n. Some (nwe_template_exercise_id n)) (inserted_rows w template)"
    by (induction rule: list_all2_induct) simp_all
  then show "map we_template_exercise_id rows =
      map (\<lambda>te. Some (te_id te)) (template_exercises template)"
    by (simp add: inserted_rows_def o_def)
  show "distinct (map we_id rows)" by (rule d)
qed

lemma all_sets_after_first_log:
  assumes "rows \<noteq> []" and "distinct (map we_id rows)"
  shows "all_sets (map (\<lambda>ex. if we_id ex = we_id (rows ! 0)
                               then ex\<lparr>sets := Some (sets_or_empty ex @ [newSet])\<rparr> else ex)
                       (map (with_targets template) rows)) = [newSet]"
proof -
  from assms obtain r rs where rows: "rows = r # rs" by (cases rows) auto
  with assms have "we_id r \<notin> we_id ` set rs" by simp
  then have fresh: "\<forall>x \<in> set rs. we_id x \<noteq> we_id r" by (metis imageI)
  have rest: "concat (map sets_or_empty
      (map (\<lambda>ex. if we_id ex = we_id r
                  then ex\<lparr>sets := Some (sets_or_empty ex @ [newSet])\<rparr> else ex)
           (map (with_targets template) rs))) = []"
    using fresh by (induction rs) (simp_all add: sets_or_empty_def)
  show ?thesis
    unfolding rows all_sets_def using rest by (simp add: sets_or_empty_def)
qed


lemma logged_on_first_exercises:
  assumes "rows \<noteq> []"
  shows "exercises (logged_on_first (started uid st template w rows) d newSet) =
     map (\<lambda>ex. if we_id ex = we_id (rows ! 0)
                then ex\<lparr>sets := Some (sets_or_empty ex @ [newSet])\<rparr> else ex)
         (map (with_targets template) rows)"
proof -
  from assms have "0 < length rows" by simp
  then have "we_id (map (with_targets template) rows ! 0) = we_id (rows ! 0)"
    by (simp del: One_nat_def)
  then show ?thesis
    by (simp add: logged_on_first_def started_def startWorkout_success logSet_def)
qed

lemma one_set_stats:
  assumes "all_sets exs = [newSet]"
    and "weight_kg newSet = Some 100" and "reps newSet = Some 5" and "\<not> is_warmup newSet"
  shows "spec_totalSets exs = 1" and "spec_totalVolume exs = 500" and "volume_is_exact 0 exs"
proof -
  from assms show "spec_totalSets exs = 1"
    by (simp add: spec_totalSets_def)
  from assms have exact: "exact_volume exs = 500"
    by (simp add: exact_volume_def counts_for_volume_def set_volume_def)
  then show "spec_totalVolume exs = 500"
    by (simp add: spec_totalVolume_def)
  have "(500::rat) < 2 ^ 53" by simp
  with assms show "volume_is_exact 0 exs"
    by (simp add: volume_is_exact_def counts_for_volume_def set_volume_def weight_on_grid_def
        on_grid_def)
qed

text \<open>
  Claim C9. A signed-in user starts a template of three exercises with three target sets
  each, and the store answers both inserts, the second with the three created rows. Then
  the call succeeds and the session holds exactly three slots, one per template exercise
  in template order, each with \<open>targetSets\<close> 3 and an empty set list. Logging one
  non-warmup set of 100 kg for 5 reps on the first slot then gives \<open>totalVolume\<close> 500 and
  \<open>totalSets\<close> 1; the product and the sums are exact in doubles. (That the three
  exercises differ is not needed.)
\<close>

theorem start_three_then_log_one:
  assumes three: "length (template_exercises template) = 3"
    and targets: "\<forall>te \<in> set (template_exercises template). te_target_sets te = 3"
    and answer: "insert_answer_ok (inserted_rows w template) rows"
    and created: "weight_kg newSet = Some 100" "reps newSet = Some 5" "\<not> is_warmup newSet"
  shows "success (returned (startWorkout (Some uid) st template (Inr w) (Inr rows)))
     \<and> workout (started uid st template w rows) = Some w
     \<and> length (exercises (started uid st template w rows)) = 3
     \<and> map we_exercise_id (exercises (started uid st template w rows)) =
         map te_exercise_id (template_exercises template)
     \<and> map we_template_exercise_id (exercises (started uid st template w rows)) =
         map (\<lambda>te. Some (te_id te)) (template_exercises template)
     \<and> (\<forall>ex \<in> set (exercises (started uid st template w rows)).
          targetSets ex = Some 3 \<and> sets ex = Some [])
     \<and> totalVolume (getWorkoutStats (logged_on_first (started uid st template w rows) d newSet))
         = Finite 500
     \<and> totalSets (getWorkoutStats (logged_on_first (started uid st template w rows) d newSet)) = 1"
proof -
  note cols = insert_answer_columns [OF answer]
  have st1: "started uid st template w rows =
      \<lparr>workout = Some w, exercises = map (with_targets template) rows,
       loading = False, st_error = None\<rparr>"
    by (simp add: started_def startWorkout_success)
  have ok: "success (returned (startWorkout (Some uid) st template (Inr w) (Inr rows)))"
    by (simp add: startWorkout_success succeeded_def)
  have active: "workout (started uid st template w rows) = Some w"
    by (simp add: st1)
  have len: "length (exercises (started uid st template w rows)) = 3"
    using cols(1) three by (simp add: st1)
  have order: "map we_exercise_id (exercises (started uid st template w rows)) =
         map te_exercise_id (template_exercises template)"
    using cols(2) by (simp add: st1 o_def)
  have origin: "map we_template_exercise_id (exercises (started uid st template w rows)) =
         map (\<lambda>te. Some (te_id te)) (template_exercises template)"
    using cols(3) by (simp add: st1 o_def)
  have fresh: "\<forall>ex \<in> set (exercises (started uid st template w rows)).
          targetSets ex = Some 3 \<and> sets ex = Some []"
    by (auto simp add: st1 with_targets_three [OF targets])
  from cols(1) three have nonempty: "rows \<noteq> []" by auto
  have "all_sets (exercises (logged_on_first (started uid st template w rows) d newSet)) = [newSet]"
    unfolding logged_on_first_exercises [OF nonempty]
    by (rule all_sets_after_first_log [OF nonempty cols(4)])
  note one = one_set_stats [OF this created]
  have volume: "totalVolume (getWorkoutStats (logged_on_first (started uid st template w rows) d newSet))
      = Finite 500"
    using totalVolume_exact [OF one(3)] by (simp add: one(2))
  have count: "totalSets (getWorkoutStats (logged_on_first (started uid st template w rows) d newSet)) = 1"
    by (simp only: getWorkoutStats_totalSets one(1))
  from ok active len order origin fresh volume count show ?thesis by blast
qed

theorem start_three_then_log_one_witness:
  "length (template_exercises example_template) = 3
   \<and> map te_target_sets (template_exercises example_template) = [3, 3, 3]
   \<and> insert_answer_ok (inserted_rows example_workout example_template) example_rows
   \<and> map we_id (exercises (started ''u1'' initial_state example_template example_workout example_rows))
       = [''we1'', ''we2'', ''we3'']
   \<and> map we_exercise_id (exercises (started ''u1'' initial_state example_template example_workout example_rows))
       = [''bench'', ''press'', ''dips'']
   \<and> map targetSets (exercises (started ''u1'' initial_state example_template example_workout example_rows))
       = [Some 3, Some 3, Some 3]
   \<and> totalVolume (getWorkoutStats (logged_on_first
        (started ''u1'' initial_state example_template example_workout example_rows)
        example_new_set (mk_set ''s1'' ''we1'' 1 (Some 100) (Some 5) False))) = Finite 500
   \<and> totalSets (getWorkoutStats (logged_on_first
        (started ''u1'' initial_state example_template example_workout example_rows)
        example_new_set (mk_set ''s1'' ''we1'' 1 (Some 100) (Some 5) False))) = 1"
proof -
  have three: "length (template_exercises example_template) = 3"
    by (simp add: example_template_def)
  have targets: "\<forall>te \<in> set (template_exercises example_template). te_target_sets te = 3"
    by (simp add: example_template_def mk_template_exercise_def)
  have answer: "insert_answer_ok (inserted_rows example_workout example_template) example_rows"
    by (simp add: insert_answer_ok_def inserted_rows_def example_template_def example_rows_def
        example_workout_def mk_template_exercise_def mk_slot_def)
  have created: "weight_kg (mk_set ''s1'' ''we1'' 1 (Some 100) (Some 5) False) = Some 100"
    "reps (mk_set ''s1'' ''we1'' 1 (Some 100) (Some 5) False) = Some 5"
    "\<not> is_warmup (mk_set ''s1'' ''we1'' 1 (Some 100) (Some 5) False)"
    by (simp_all add: mk_set_def)
  have ids: "map we_id (exercises (started ''u1'' initial_state example_template example_workout example_rows))
       = [''we1'', ''we2'', ''we3'']"
    by (simp add: started_def startWorkout_success example_rows_def mk_slot_def)
  have exs: "map te_exercise_id (template_exercises example_template) = [''bench'', ''press'', ''dips'']"
    by (simp add: example_template_def mk_template_exercise_def)
  have len3: "length (exercises (started ''u1'' initial_state example_template example_workout example_rows)) = 3"
    by (simp add: started_def startWorkout_success example_rows_def)
  note t = start_three_then_log_one [OF three targets answer created,
      where uid = "''u1''" and st = initial_state and d = example_new_set]
  from t have all3: "\<forall>ex \<in> set (exercises (started ''u1'' initial_state example_template example_workout example_rows)).
       targetSets ex = Some 3"
    by blast
  have tsets: "map targetSets (exercises (started ''u1'' initial_state example_template example_workout example_rows))
       = [Some 3, Some 3, Some 3]"
  proof -
    obtain a b c where abc: "exercises (started ''u1'' initial_state example_template example_workout example_rows) = [a, b, c]"
      using len3 by (auto simp add: length_Suc_conv numeral_3_eq_3)
    with all3 show ?thesis by simp
  qed
  have given: "map te_target_sets (template_exercises example_template) = [3, 3, 3]"
    by (simp add: example_template_def mk_template_exercise_def)
  from t three given answer ids exs tsets show ?thesis by simp
qed

section \<open>Which operations require an active session\<close>

text \<open>
  Claim C10. \<open>updateSet\<close>, \<open>deleteSet\<close> and \<open>swapExercise\<close> issue their request in
  every state, also when no workout is active, and return \<open>{ success: true, error: null }\<close>
  when it succeeds. With no workout active, \<open>logSet\<close>, \<open>completeWorkout\<close> and
  \<open>abandonWorkout\<close> issue nothing and return the failure \<open>No active workout\<close>.
\<close>

theorem no_session_guard_on_patch_operations:
  "issued (updateSet st sid updates r1) = [UpdateSet sid updates]
   \<and> issued (deleteSet st sid wid r2) = [DeleteSetRow sid]
   \<and> issued (swapExercise st wid newId r3) = [UpdateWorkoutExercise wid newId True]
   \<and> returned (updateSet st sid updates (Inr s)) = \<lparr>success = True, error = None, extra = None\<rparr>
   \<and> returned (deleteSet st sid wid (Inr u)) = \<lparr>success = True, error = None, extra = None\<rparr>
   \<and> returned (swapExercise st wid newId (Inr data)) = \<lparr>success = True, error = None, extra = None\<rparr>
   \<and> (workout st = None \<longrightarrow>
        issued (logSet st wid d r4) = []
        \<and> returned (logSet st wid d r4) =
            \<lparr>success = False, error = Some ''No active workout'', extra = None\<rparr>
        \<and> issued (completeWorkout st now note_text r5) = []
        \<and> returned (completeWorkout st now note_text r5) =
            \<lparr>success = False, error = Some ''No active workout'', extra = None\<rparr>
        \<and> issued (abandonWorkout st now r6) = []
        \<and> returned (abandonWorkout st now r6) =
            \<lparr>success = False, error = Some ''No active workout'', extra = None\<rparr>)"
proof -
  have patch: "issued (updateSet st sid updates r1) = [UpdateSet sid updates]
     \<and> issued (deleteSet st sid wid r2) = [DeleteSetRow sid]
     \<and> issued (swapExercise st wid newId r3) = [UpdateWorkoutExercise wid newId True]"
    by (simp add: updateSet_def deleteSet_def swapExercise_def split: sum.splits)
  have ok: "returned (updateSet st sid updates (Inr s)) = \<lparr>success = True, error = None, extra = None\<rparr>
     \<and> returned (deleteSet st sid wid (Inr u)) = \<lparr>success = True, error = None, extra = None\<rparr>
     \<and> returned (swapExercise st wid newId (Inr data)) = \<lparr>success = True, error = None, extra = None\<rparr>"
    by (simp add: updateSet_def deleteSet_def swapExercise_def succeeded_def)
  have guarded: "issued (logSet st wid d r4) = []
        \<and> returned (logSet st wid d r4) =
            \<lparr>success = False, error = Some ''No active workout'', extra = None\<rparr>
        \<and> issued (completeWorkout st now note_text r5) = []
        \<and> returned (completeWorkout st now note_text r5) =
            \<lparr>success = False, error = Some ''No active workout'', extra = None\<rparr>
        \<and> issued (abandonWorkout st now r6) = []
        \<and> returned (abandonWorkout st now r6) =
            \<lparr>success = False, error = Some ''No active workout'', extra = None\<rparr>"
    if "workout st = None"
    using that by (simp add: logSet_def completeWorkout_def abandonWorkout_def failed_def)
  from patch ok guarded show ?thesis by blast
qed

theorem no_session_guard_on_patch_operations_witness:
  "workout initial_state = None
   \<and> issued (deleteSet initial_state ''a'' ''we1'' (Inr ())) = [DeleteSetRow ''a'']
   \<and> success (returned (deleteSet initial_state ''a'' ''we1'' (Inr ())))
   \<and> issued (updateSet initial_state ''a'' example_updates
        (Inr (mk_set ''a'' ''we1'' 1 (Some 65) (Some 8) False))) = [UpdateSet ''a'' example_updates]
   \<and> issued (logSet initial_state ''we1'' example_new_set
        (Inr (mk_set ''d'' ''we1'' 4 (Some 100) (Some 5) False))) = []
   \<and> error (returned (logSet initial_state ''we1'' example_new_set
        (Inr (mk_set ''d'' ''we1'' 4 (Some 100) (Some 5) False)))) = Some ''No active workout''"
proof -
  have idle: "workout initial_state = None"
    by (simp add: initial_state_def)
  from no_session_guard_on_patch_operations [where st = initial_state and sid = "''a''"
      and wid = "''we1''" and ?r2.0 = "Inr ()" and u = "()" and updates = example_updates
      and ?r1.0 = "Inr (mk_set ''a'' ''we1'' 1 (Some 65) (Some 8) False)"
      and d = example_new_set and ?r4.0 = "Inr (mk_set ''d'' ''we1'' 4 (Some 100) (Some 5) False)"]
    idle
  show ?thesis by simp
qed

end
